theory Spec2Isabelle
  imports Main
begin

section \<open>JavaScript values used by the incident-report client\<close>

text \<open>
  The client is three TypeScript files: the form hook \<open>useIncidentReportForm\<close>
  (load of an existing report and the submit workflow), the service module
  \<open>reportService.ts\<close> and the list component \<open>ReportsList\<close>. The hosted backend,
  the router, the toast hook and the session accessor are external; the model records
  every call made to them, with the response received, in a trace. Console output
  is not part of the model.
\<close>

subsection \<open>Truthiness\<close>

text \<open>
  A value of type \<open>string | null | undefined\<close> is a \<open>string option\<close>. JavaScript
  treats \<open>null\<close>, \<open>undefined\<close> and the empty string as falsy.
\<close>

definition truthy :: "string option \<Rightarrow> bool" where
  "truthy v = (case v of None \<Rightarrow> False | Some s \<Rightarrow> s \<noteq> [])"

definition or_empty :: "string option \<Rightarrow> string" where
  \<comment> \<open>\<open>v || ""\<close>\<close>
  "or_empty v = (if truthy v then the v else [])"

subsection \<open>Dates\<close>

text \<open>
  A \<open>Date\<close> holds a time value in milliseconds since the epoch, or is the
  Invalid Date. \<open>toISOString\<close> throws a \<open>RangeError\<close> on an invalid date and on
  a time value outside the range of \<open>\<plusminus>8.64e15\<close> ms.
\<close>

datatype js_date = Date int | Invalid_Date

datatype error = RangeError | BackendError string

definition max_time_value :: int where
  "max_time_value = 8640000000000000"

definition is_valid_Date :: "js_date \<Rightarrow> bool" where
  "is_valid_Date d = (case d of Date t \<Rightarrow> \<bar>t\<bar> \<le> max_time_value | Invalid_Date \<Rightarrow> False)"

definition digit_char :: "int \<Rightarrow> char" where
  "digit_char k = ''0123456789'' ! nat (k mod 10)"

fun pad_digits :: "nat \<Rightarrow> int \<Rightarrow> string" where
  \<comment> \<open>the \<open>n\<close> low-order decimal digits of a non-negative number, zero padded\<close>
  "pad_digits 0 k = []"
| "pad_digits (Suc n) k = pad_digits n (k div 10) @ [digit_char k]"

definition civil_from_days :: "int \<Rightarrow> int \<times> int \<times> int" where
  \<comment> \<open>year, month and day of the proleptic Gregorian calendar for a day number
      counted from 1970-01-01\<close>
  "civil_from_days z0 =
     (let z = z0 + 719468;
          era = z div 146097;
          doe = z - era * 146097;
          yoe = (doe - doe div 1460 + doe div 36524 - doe div 146096) div 365;
          y = yoe + era * 400;
          doy = doe - (365 * yoe + yoe div 4 - yoe div 100);
          mp = (5 * doy + 2) div 153;
          d = doy - (153 * mp + 2) div 5 + 1;
          m = (if mp < 10 then mp + 3 else mp - 9)
      in (if m \<le> 2 then y + 1 else y, m, d))"

definition iso_year :: "int \<Rightarrow> string" where
  \<comment> \<open>four digits for the years 0 to 9999, a sign and six digits otherwise\<close>
  "iso_year y =
     (if 0 \<le> y \<and> y \<le> 9999 then pad_digits 4 y
      else (if y < 0 then ''-'' else ''+'') @ pad_digits 6 \<bar>y\<bar>)"

definition toISOString :: "js_date \<Rightarrow> error + string" where
  "toISOString d =
     (case d of
        Invalid_Date \<Rightarrow> Inl RangeError
      | Date t \<Rightarrow>
          if \<bar>t\<bar> \<le> max_time_value then
            (let (y, m, dd) = civil_from_days (t div 86400000);
                 ms = t mod 86400000
             in Inr (iso_year y @ ''-'' @ pad_digits 2 m @ ''-'' @ pad_digits 2 dd @ ''T'' @
                     pad_digits 2 (ms div 3600000) @ '':'' @
                     pad_digits 2 (ms div 60000 mod 60) @ '':'' @
                     pad_digits 2 (ms div 1000 mod 60) @ ''.'' @
                     pad_digits 3 (ms mod 1000) @ ''Z''))
          else Inl RangeError)"

definition split_T_0 :: "string \<Rightarrow> string" where
  \<comment> \<open>\<open>s.split('T')[0]\<close>: the text before the first \<open>T\<close>\<close>
  "split_T_0 s = takeWhile (\<lambda>c. c \<noteq> CHR ''T'') s"

subsection \<open>JSON payloads\<close>

text \<open>
  An object literal handed to the data-access client is a list of keys with their
  values, in the order of the source; two payloads are the same row when they agree
  as maps (\<open>map_of\<close>).
\<close>

datatype json =
    JNull
  | JBool bool
  | JString string
  | JArray "json list"
  | JObject "(string \<times> json) list"

type_synonym row = "(string \<times> json) list"

definition nullable :: "string option \<Rightarrow> json" where
  \<comment> \<open>a field of type \<open>string | null\<close>\<close>
  "nullable v = (case v of None \<Rightarrow> JNull | Some s \<Rightarrow> JString s)"

section \<open>The form controller: \<open>useIncidentReportForm\<close>\<close>

subsection \<open>Form values\<close>

record js_file =
  f_name :: string
  f_type :: string
  f_content :: string

text \<open>
  \<open>ReportFormSchema\<close>, with the fields of \<open>defaultValues\<close>; \<open>files\<close> is
  \<open>undefined\<close> or a file list.
\<close>

record ReportFormSchema =
  title :: string
  description :: string
  incident_date :: js_date
  incident_time :: string
  location :: string
  main_category_id :: string
  categories :: "string list"
  files :: "js_file list option"

definition defaultValues :: "int \<Rightarrow> ReportFormSchema" where
  \<comment> \<open>the argument is the clock reading taken by \<open>new Date()\<close>\<close>
  "defaultValues now =
     \<lparr> title = [], description = [], incident_date = Date now, incident_time = [],
       location = [], main_category_id = [], categories = [], files = None \<rparr>"

subsection \<open>Loading an existing report\<close>

text \<open>
  The record fetched by \<open>select("*, report_category_assignments (subcategory_id,
  main_category_id)")\<close>. It is typed \<open>any\<close> in the source: every column may be
  \<open>null\<close>, and the embedded assignment list may be missing.
\<close>

record assignment_ref =
  a_subcategory_id :: string
  a_main_category_id :: string

record fetched_report =
  r_title :: "string option"
  r_description :: "string option"
  r_incident_date :: "string option"
  r_incident_time :: "string option"
  r_location :: "string option"
  r_main_category_id :: "string option"
  r_report_category_assignments :: "assignment_ref list option"

text \<open>
  The JavaScript environment of the hook: the clock read by \<open>new Date()\<close> and
  the date parser behind \<open>new Date(string)\<close>, whose result for a text that is
  not in the ISO format depends on the engine.
\<close>

record js_env =
  now :: int
  Date_parse :: "string \<Rightarrow> js_date"

definition onSettled :: "js_env \<Rightarrow> fetched_report option \<Rightarrow> ReportFormSchema \<Rightarrow> ReportFormSchema" where
  \<comment> \<open>the function stored as \<open>meta.onSettled\<close>: \<open>form.reset\<close> replaces every field
      when there is data\<close>
  "onSettled js data form =
     (case data of
        None \<Rightarrow> form
      | Some r \<Rightarrow>
          \<lparr> title = or_empty (r_title r),
            description = or_empty (r_description r),
            incident_date =
              (if truthy (r_incident_date r) then Date_parse js (the (r_incident_date r))
               else Date (now js)),
            incident_time = or_empty (r_incident_time r),
            location = or_empty (r_location r),
            main_category_id = or_empty (r_main_category_id r),
            categories =
              (case r_report_category_assignments r of
                 None \<Rightarrow> []
               | Some as \<Rightarrow> map a_subcategory_id as),
            files = None \<rparr>)"

text \<open>
  \<open>queryFn\<close>: no identifier gives \<open>null\<close>; otherwise the single-row select, whose
  error is thrown. The select is the parameter \<open>select_single\<close>.
\<close>

definition queryFn :: "(string \<Rightarrow> error + fetched_report) \<Rightarrow> string option \<Rightarrow> error + fetched_report option" where
  "queryFn select_single ident =
     (if \<not> truthy ident then Inr None
      else (case select_single (the ident) of
              Inl e \<Rightarrow> Inl e
            | Inr report \<Rightarrow> Inr (Some report)))"

text \<open>
  \<open>useQuery\<close>: the query library runs \<open>queryFn\<close> when the query is enabled
  (\<open>!!id\<close>) and keeps its outcome; a disabled query never runs.
\<close>

definition useQuery ::
  "(string \<Rightarrow> error + fetched_report) \<Rightarrow> string option \<Rightarrow> (error + fetched_report option) option" where
  "useQuery select_single ident =
     (if truthy ident then Some (queryFn select_single ident) else None)"

text \<open>
  The load operation of the hook. The settled callback is passed to \<open>useQuery\<close>
  inside the option \<open>meta\<close>, which the query library stores with the query as
  data and does not call, and nothing in these files reads it back and calls it. The
  load therefore fetches the report and leaves the form values as they are.
\<close>

definition load ::
  "(string \<Rightarrow> error + fetched_report) \<Rightarrow> string option \<Rightarrow> ReportFormSchema \<Rightarrow>
     ReportFormSchema \<times> (error + fetched_report option) option" where
  "load select_single ident form = (form, useQuery select_single ident)"

subsection \<open>The session, the toasts and the backend\<close>

text \<open>
  \<open>session?.user?.id\<close>: the session may be \<open>null\<close>, and so may its user.
\<close>

record js_user =
  user_id :: string

record js_session =
  user :: "js_user option"

definition session_user_id :: "js_session option \<Rightarrow> string option" where
  "session_user_id session =
     (case session of
        None \<Rightarrow> None
      | Some s \<Rightarrow> (case user s of None \<Rightarrow> None | Some u \<Rightarrow> Some (user_id u)))"

record toast =
  t_title :: string
  t_description :: string
  t_variant :: "string option"

definition auth_error_toast :: toast where
  "auth_error_toast =
     \<lparr> t_title = ''Error'', t_description = ''You must be logged in to submit a report'',
       t_variant = Some ''destructive'' \<rparr>"

definition updated_toast :: toast where
  "updated_toast =
     \<lparr> t_title = ''Success'', t_description = ''Report updated successfully'',
       t_variant = None \<rparr>"

definition created_toast :: toast where
  "created_toast =
     \<lparr> t_title = ''Success'', t_description = ''Report created successfully'',
       t_variant = None \<rparr>"

definition generic_error_toast :: toast where
  "generic_error_toast =
     \<lparr> t_title = ''Error'', t_description = ''Something went wrong. Please try again.'',
       t_variant = Some ''destructive'' \<rparr>"

text \<open>
  One event per call that leaves the hook, in the order of the calls. A call to the
  backend is recorded with the response it received: an insert of one row that returns
  the created row (\<open>insert(..).select().single()\<close>, of which the source reads only the
  identifier), a bulk insert, a call of a server-side procedure and an upload to a
  storage bucket under a path. \<open>Delete\<close> and \<open>Remove\<close> are the operations of the same
  client by which a committed row or stored object would be taken back.
\<close>

datatype event =
    InsertSingle string row "error + string"
  | Insert string "row list" "error option"
  | Rpc string row "error option"
  | Upload string string js_file "error option"
  | Delete string row "error option"
  | Remove string "string list" "error option"
  | Toast toast
  | Navigate string

text \<open>
  The backend answers each call; the answer may depend on everything that was
  called before (the trace so far), so that any combination of successes and
  failures in one run is covered. \<open>getPublicUrl\<close> is computed by the client
  library from the bucket and the path, without a request.
\<close>

record backend =
  insert_single_resp :: "event list \<Rightarrow> string \<Rightarrow> row \<Rightarrow> error + string"
  insert_resp :: "event list \<Rightarrow> string \<Rightarrow> row list \<Rightarrow> error option"
  rpc_resp :: "event list \<Rightarrow> string \<Rightarrow> row \<Rightarrow> error option"
  upload_resp :: "event list \<Rightarrow> string \<Rightarrow> string \<Rightarrow> js_file \<Rightarrow> error option"
  getPublicUrl :: "string \<Rightarrow> string \<Rightarrow> string"

record ui_state =
  form_values :: ReportFormSchema
  trace :: "event list"

subsection \<open>The submit workflow\<close>

definition reportData :: "ReportFormSchema \<Rightarrow> string \<Rightarrow> string \<Rightarrow> row" where
  \<comment> \<open>the second argument is \<open>data.incident_date.toISOString().split('T')[0]\<close>\<close>
  "reportData data iso_date uid =
     [(''title'', JString (title data)),
      (''description'', JString (description data)),
      (''incident_date'', JString iso_date),
      (''incident_time'', JString (incident_time data)),
      (''location'', JString (location data)),
      (''main_category_id'', JString (main_category_id data)),
      (''user_id'', JString uid)]"

definition p_categories :: "ReportFormSchema \<Rightarrow> row list" where
  "p_categories data =
     map (\<lambda>subcategoryId.
            [(''subcategory_id'', JString subcategoryId),
             (''main_category_id'', JString (main_category_id data)),
             (''is_primary'', JBool False)])
         (categories data)"

definition rpc_args :: "string \<Rightarrow> row \<Rightarrow> ReportFormSchema \<Rightarrow> row" where
  "rpc_args ident rd data =
     [(''p_report_id'', JString ident),
      (''p_report_data'', JObject rd),
      (''p_categories'', JArray (map JObject (p_categories data)))]"

definition update_path ::
  "backend \<Rightarrow> string \<Rightarrow> row \<Rightarrow> ReportFormSchema \<Rightarrow> event list \<Rightarrow> (error + unit) \<times> event list" where
  "update_path be ident rd data tr =
     (let args = rpc_args ident rd data;
          rpcError = rpc_resp be tr ''update_report_with_categories'' args;
          tr1 = tr @ [Rpc ''update_report_with_categories'' args rpcError]
      in case rpcError of
           Some e \<Rightarrow> (Inl e, tr1)
         | None \<Rightarrow> (Inr (), tr1 @ [Toast updated_toast]))"

definition category_rows :: "string \<Rightarrow> ReportFormSchema \<Rightarrow> row list" where
  "category_rows newReport_id data =
     map (\<lambda>subcategoryId.
            [(''report_id'', JString newReport_id),
             (''subcategory_id'', JString subcategoryId),
             (''main_category_id'', JString (main_category_id data)),
             (''is_primary'', JBool False)])
         (categories data)"

definition insert_categories ::
  "backend \<Rightarrow> string \<Rightarrow> ReportFormSchema \<Rightarrow> event list \<Rightarrow> (error + unit) \<times> event list" where
  "insert_categories be newReport_id data tr =
     (if length (categories data) > 0 then
        (let rows = category_rows newReport_id data;
             categoryError = insert_resp be tr ''report_category_assignments'' rows;
             tr1 = tr @ [Insert ''report_category_assignments'' rows categoryError]
         in case categoryError of
              Some e \<Rightarrow> (Inl e, tr1)
            | None \<Rightarrow> (Inr (), tr1))
      else (Inr (), tr))"

definition evidence_row :: "backend \<Rightarrow> string \<Rightarrow> string \<Rightarrow> js_file \<Rightarrow> row" where
  "evidence_row be newReport_id uid f =
     [(''report_id'', JString newReport_id),
      (''file_url'', JString (getPublicUrl be ''evidence'' (newReport_id @ ''/'' @ f_name f))),
      (''file_type'', JString (f_type f)),
      (''uploaded_by'', JString uid)]"

text \<open>
  \<open>Array.from(data.files).map(async (file) => ...)\<close>: every upload is issued, in
  the order of the file list, whether or not an earlier one fails; each promise is
  rejected with its upload error or fulfilled with its evidence row. The uploads run
  concurrently; the trace lists them in the order of issue.
\<close>

fun uploadPromises ::
  "backend \<Rightarrow> string \<Rightarrow> string \<Rightarrow> js_file list \<Rightarrow> event list \<Rightarrow> (error + row) list \<times> event list" where
  "uploadPromises be newReport_id uid [] tr = ([], tr)"
| "uploadPromises be newReport_id uid (f # fs) tr =
     (let fileName = newReport_id @ ''/'' @ f_name f;
          uploadError = upload_resp be tr ''evidence'' fileName f;
          tr1 = tr @ [Upload ''evidence'' fileName f uploadError];
          p = (case uploadError of
                 Some e \<Rightarrow> Inl e
               | None \<Rightarrow> Inr (evidence_row be newReport_id uid f));
          (ps, tr2) = uploadPromises be newReport_id uid fs tr1
      in (p # ps, tr2))"

fun Promise_all :: "(error + 'a) list \<Rightarrow> error + 'a list" where
  \<comment> \<open>rejected when one promise is rejected (the error is only logged by the caller),
      fulfilled with all the values otherwise\<close>
  "Promise_all [] = Inr []"
| "Promise_all (Inl e # ps) = Inl e"
| "Promise_all (Inr x # ps) =
     (case Promise_all ps of Inl e \<Rightarrow> Inl e | Inr xs \<Rightarrow> Inr (x # xs))"

definition upload_files ::
  "backend \<Rightarrow> string \<Rightarrow> string \<Rightarrow> ReportFormSchema \<Rightarrow> event list \<Rightarrow> (error + unit) \<times> event list" where
  "upload_files be newReport_id uid data tr =
     (case files data of
        None \<Rightarrow> (Inr (), tr)
      | Some fs \<Rightarrow>
          if length fs > 0 then
            (let (ps, tr1) = uploadPromises be newReport_id uid fs tr
             in case Promise_all ps of
                  Inl e \<Rightarrow> (Inl e, tr1)
                | Inr uploadedFiles \<Rightarrow>
                    (let evidenceError = insert_resp be tr1 ''evidence'' uploadedFiles;
                         tr2 = tr1 @ [Insert ''evidence'' uploadedFiles evidenceError]
                     in case evidenceError of
                          Some e \<Rightarrow> (Inl e, tr2)
                        | None \<Rightarrow> (Inr (), tr2)))
          else (Inr (), tr))"

definition create_path ::
  "backend \<Rightarrow> row \<Rightarrow> string \<Rightarrow> ReportFormSchema \<Rightarrow> event list \<Rightarrow> (error + unit) \<times> event list" where
  "create_path be rd uid data tr =
     (let r = insert_single_resp be tr ''reports'' rd;
          tr1 = tr @ [InsertSingle ''reports'' rd r]
      in case r of
           Inl reportError \<Rightarrow> (Inl reportError, tr1)
         | Inr newReport_id \<Rightarrow>
             (case insert_categories be newReport_id data tr1 of
                (Inl e, tr2) \<Rightarrow> (Inl e, tr2)
              | (Inr _, tr2) \<Rightarrow>
                  (case upload_files be newReport_id uid data tr2 of
                     (Inl e, tr3) \<Rightarrow> (Inl e, tr3)
                   | (Inr _, tr3) \<Rightarrow> (Inr (), tr3 @ [Toast created_toast]))))"

text \<open>
  The body of the \<open>try\<close> block: \<open>Inl\<close> is a thrown error. Without a user identifier
  the block returns after the authentication toast. The date is converted before the
  branch on the route identifier; navigation follows either branch.

  The form library calls \<open>onSubmit\<close> with data that passed the resolver of the form
  (\<open>zodResolver(reportFormSchema)\<close>); the schema is not among the source files. The
  model keeps the Invalid Date among the form values, on which \<open>toISOString\<close>
  throws before any call is made; the properties of a submission that reaches the
  backend are stated for a valid incident date.
\<close>

definition onSubmit_try ::
  "backend \<Rightarrow> js_session option \<Rightarrow> string option \<Rightarrow> ReportFormSchema \<Rightarrow> event list \<Rightarrow> (error + unit) \<times> event list" where
  "onSubmit_try be session ident data tr =
     (if \<not> truthy (session_user_id session) then (Inr (), tr @ [Toast auth_error_toast])
      else
        (let uid = the (session_user_id session)
         in case toISOString (incident_date data) of
              Inl e \<Rightarrow> (Inl e, tr)
            | Inr iso_text \<Rightarrow>
                (let rd = reportData data (split_T_0 iso_text) uid
                 in case (if truthy ident then update_path be (the ident) rd data tr
                          else create_path be rd uid data tr) of
                      (Inl e, tr') \<Rightarrow> (Inl e, tr')
                    | (Inr _, tr') \<Rightarrow> (Inr (), tr' @ [Navigate ''/dashboard'']))))"

text \<open>
  \<open>onSubmit\<close>: the \<open>catch\<close> block answers every thrown error with the same toast.
  The form values are those held by \<open>useForm\<close>; the submitted \<open>data\<close> is the
  argument.
\<close>

definition onSubmit ::
  "backend \<Rightarrow> js_session option \<Rightarrow> string option \<Rightarrow> ReportFormSchema \<Rightarrow> ui_state \<Rightarrow> ui_state" where
  "onSubmit be session ident data st =
     (case onSubmit_try be session ident data (trace st) of
        (Inl e, tr') \<Rightarrow> st\<lparr>trace := tr' @ [Toast generic_error_toast]\<rparr>
      | (Inr _, tr') \<Rightarrow> st\<lparr>trace := tr'\<rparr>)"

definition submit_events ::
  "backend \<Rightarrow> js_session option \<Rightarrow> string option \<Rightarrow> ReportFormSchema \<Rightarrow> ui_state \<Rightarrow> event list" where
  \<comment> \<open>the events added by one submission\<close>
  "submit_events be session ident data st =
     drop (length (trace st)) (trace (onSubmit be session ident data st))"

definition attached_files :: "ReportFormSchema \<Rightarrow> js_file list" where
  \<comment> \<open>the files of a form; none when \<open>files\<close> is \<open>undefined\<close>\<close>
  "attached_files data = (case files data of None \<Rightarrow> [] | Some fs \<Rightarrow> fs)"

subsection \<open>Reading a trace\<close>

fun failed :: "event \<Rightarrow> bool" where
  \<comment> \<open>the call was answered with an error\<close>
  "failed (InsertSingle t r resp) = isl resp"
| "failed (Insert t rs resp) = (resp \<noteq> None)"
| "failed (Rpc n a resp) = (resp \<noteq> None)"
| "failed (Upload b p f resp) = (resp \<noteq> None)"
| "failed (Delete t r resp) = (resp \<noteq> None)"
| "failed (Remove b ps resp) = (resp \<noteq> None)"
| "failed (Toast t) = False"
| "failed (Navigate p) = False"

fun is_write :: "event \<Rightarrow> bool" where
  \<comment> \<open>the write steps of a submission: report insert, bulk insert, procedure call,
      file upload\<close>
  "is_write (InsertSingle t r resp) = True"
| "is_write (Insert t rs resp) = True"
| "is_write (Rpc n a resp) = True"
| "is_write (Upload b p f resp) = True"
| "is_write (Delete t r resp) = False"
| "is_write (Remove b ps resp) = False"
| "is_write (Toast t) = False"
| "is_write (Navigate p) = False"

fun undoes :: "event \<Rightarrow> bool" where
  \<comment> \<open>a call that takes a committed write back\<close>
  "undoes (Delete t r resp) = True"
| "undoes (Remove b ps resp) = True"
| "undoes (InsertSingle t r resp) = False"
| "undoes (Insert t rs resp) = False"
| "undoes (Rpc n a resp) = False"
| "undoes (Upload b p f resp) = False"
| "undoes (Toast t) = False"
| "undoes (Navigate p) = False"

fun is_backend_call :: "event \<Rightarrow> bool" where
  "is_backend_call (Toast t) = False"
| "is_backend_call (Navigate p) = False"
| "is_backend_call (InsertSingle t r resp) = True"
| "is_backend_call (Insert t rs resp) = True"
| "is_backend_call (Rpc n a resp) = True"
| "is_backend_call (Upload b p f resp) = True"
| "is_backend_call (Delete t r resp) = True"
| "is_backend_call (Remove b ps resp) = True"

fun is_insert_into :: "string \<Rightarrow> event \<Rightarrow> bool" where
  "is_insert_into t (InsertSingle t' r resp) = (t' = t)"
| "is_insert_into t (Insert t' rs resp) = (t' = t)"
| "is_insert_into t (Rpc n a resp) = False"
| "is_insert_into t (Upload b p f resp) = False"
| "is_insert_into t (Delete t' r resp) = False"
| "is_insert_into t (Remove b ps resp) = False"
| "is_insert_into t (Toast x) = False"
| "is_insert_into t (Navigate p) = False"

fun is_upload :: "event \<Rightarrow> bool" where
  "is_upload (Upload b p f resp) = True"
| "is_upload (InsertSingle t r resp) = False"
| "is_upload (Insert t rs resp) = False"
| "is_upload (Rpc n a resp) = False"
| "is_upload (Delete t r resp) = False"
| "is_upload (Remove b ps resp) = False"
| "is_upload (Toast t) = False"
| "is_upload (Navigate p) = False"

fun is_navigate :: "event \<Rightarrow> bool" where
  "is_navigate (Navigate p) = True"
| "is_navigate (InsertSingle t r resp) = False"
| "is_navigate (Insert t rs resp) = False"
| "is_navigate (Rpc n a resp) = False"
| "is_navigate (Upload b p f resp) = False"
| "is_navigate (Delete t r resp) = False"
| "is_navigate (Remove b ps resp) = False"
| "is_navigate (Toast t) = False"

fun toast_of :: "event \<Rightarrow> toast list" where
  "toast_of (Toast t) = [t]"
| "toast_of (Navigate p) = []"
| "toast_of (InsertSingle t r resp) = []"
| "toast_of (Insert t rs resp) = []"
| "toast_of (Rpc n a resp) = []"
| "toast_of (Upload b p f resp) = []"
| "toast_of (Delete t r resp) = []"
| "toast_of (Remove b ps resp) = []"

definition toasts :: "event list \<Rightarrow> toast list" where
  \<comment> \<open>the toasts shown, in order\<close>
  "toasts evs = concat (map toast_of evs)"

fun committed_rows :: "string \<Rightarrow> event \<Rightarrow> row list" where
  \<comment> \<open>the rows an event committed to a table: those of a successful insert\<close>
  "committed_rows t (InsertSingle t' r resp) = (if t' = t \<and> \<not> isl resp then [r] else [])"
| "committed_rows t (Insert t' rs resp) = (if t' = t \<and> resp = None then rs else [])"
| "committed_rows t (Rpc n a resp) = []"
| "committed_rows t (Upload b p f resp) = []"
| "committed_rows t (Delete t' r resp) = []"
| "committed_rows t (Remove b ps resp) = []"
| "committed_rows t (Toast x) = []"
| "committed_rows t (Navigate p) = []"

definition rows_inserted :: "string \<Rightarrow> event list \<Rightarrow> row list" where
  "rows_inserted t evs = concat (map (committed_rows t) evs)"

fun assignment_records :: "event \<Rightarrow> json list" where
  \<comment> \<open>the category-assignment records an event carries to the backend: the rows of
      an insert into \<open>report_category_assignments\<close>, and the members of the
      \<open>p_categories\<close> argument of the update procedure\<close>
  "assignment_records (Insert t rs resp) =
     (if t = ''report_category_assignments'' then map JObject rs else [])"
| "assignment_records (InsertSingle t r resp) =
     (if t = ''report_category_assignments'' then [JObject r] else [])"
| "assignment_records (Rpc n a resp) =
     (if n = ''update_report_with_categories'' then
        (case map_of a ''p_categories'' of Some (JArray cs) \<Rightarrow> cs | _ \<Rightarrow> [])
      else [])"
| "assignment_records (Upload b p f resp) = []"
| "assignment_records (Delete t r resp) = []"
| "assignment_records (Remove b ps resp) = []"
| "assignment_records (Toast t) = []"
| "assignment_records (Navigate p) = []"

fun field :: "string \<Rightarrow> json \<Rightarrow> json option" where
  \<comment> \<open>the value of a key of an object\<close>
  "field k (JObject kvs) = map_of kvs k"
| "field k JNull = None"
| "field k (JBool b) = None"
| "field k (JString s) = None"
| "field k (JArray xs) = None"

definition records_non_primary :: "string \<Rightarrow> event \<Rightarrow> bool" where
  \<comment> \<open>every assignment record of the event is not primary and refers to the given
      main category\<close>
  "records_non_primary m e =
     list_all (\<lambda>r. field ''is_primary'' r = Some (JBool False)
                 \<and> field ''main_category_id'' r = Some (JString m))
       (assignment_records e)"

section \<open>The report data service: \<open>reportService.ts\<close>\<close>

record ReportData =
  rd_title :: string
  rd_description :: string
  rd_category_id :: string
  rd_incident_date :: "string option"
  rd_incident_time :: "string option"
  rd_location :: "string option"
  rd_user_id :: string

definition ReportData_row :: "ReportData \<Rightarrow> row" where
  \<comment> \<open>the payload of an object of the interface \<open>ReportData\<close>\<close>
  "ReportData_row rd =
     [(''title'', JString (rd_title rd)),
      (''description'', JString (rd_description rd)),
      (''category_id'', JString (rd_category_id rd)),
      (''incident_date'', nullable (rd_incident_date rd)),
      (''incident_time'', nullable (rd_incident_time rd)),
      (''location'', nullable (rd_location rd)),
      (''user_id'', JString (rd_user_id rd))]"

definition createReport ::
  "backend \<Rightarrow> ReportData \<Rightarrow> event list \<Rightarrow> (error + string) \<times> event list" where
  \<comment> \<open>\<open>insert(reportData).select().single()\<close>; the error is thrown, the created
      row returned\<close>
  "createReport be rd tr =
     (let r = insert_single_resp be tr ''reports'' (ReportData_row rd)
      in (r, tr @ [InsertSingle ''reports'' (ReportData_row rd) r]))"

text \<open>
  The \<open>ReportData\<close> that carries the values of a submitted form: the texts of the
  form, the main category as the category reference, the calendar date and the user.
\<close>

definition corresponding_ReportData :: "ReportFormSchema \<Rightarrow> string \<Rightarrow> string \<Rightarrow> ReportData" where
  "corresponding_ReportData data iso_date uid =
     \<lparr> rd_title = title data, rd_description = description data,
       rd_category_id = main_category_id data, rd_incident_date = Some iso_date,
       rd_incident_time = Some (incident_time data), rd_location = Some (location data),
       rd_user_id = uid \<rparr>"

section \<open>The report list view: \<open>ReportsList\<close>\<close>

text \<open>
  A report summary. The incident date is tested for truthiness and the category is
  read with \<open>?.\<close>, so both may be missing.
\<close>

record Report =
  rep_id :: string
  rep_title :: string
  rep_status :: string
  rep_incident_date :: "string option"
  rep_case_categories :: "string option"

record badge =
  variant :: string
  badge_text :: string

record item_view =
  item_key :: string
  onClick :: string
  heading :: string
  category_line :: string
  date_line :: string
  status_badge :: badge

datatype view = Placeholder string | Items "item_view list"

text \<open>
  \<open>format(new Date(..), "PPP")\<close> belongs to the date library; it is the parameter
  \<open>format_PPP\<close>, which throws a \<open>RangeError\<close> for a text that is not a date. An
  error thrown while an item is rendered ends the rendering of the list.
\<close>

definition render_item :: "(string \<Rightarrow> error + string) \<Rightarrow> Report \<Rightarrow> error + item_view" where
  "render_item format_PPP report =
     (case (if truthy (rep_incident_date report) then format_PPP (the (rep_incident_date report))
            else Inr ''No date specified'') of
        Inl e \<Rightarrow> Inl e
      | Inr date_text \<Rightarrow>
          Inr \<lparr> item_key = rep_id report,
                onClick = ''/reports/'' @ rep_id report,
                heading = rep_title report,
                category_line =
                  ''Category: '' @ (case rep_case_categories report of None \<Rightarrow> [] | Some n \<Rightarrow> n),
                date_line = date_text,
                status_badge =
                  \<lparr> variant =
                      (if rep_status report = ''resolved'' then ''success''
                       else if rep_status report = ''in_progress'' then ''warning''
                       else ''default''),
                    badge_text = rep_status report \<rparr> \<rparr>)"

fun render_items :: "(string \<Rightarrow> error + string) \<Rightarrow> Report list \<Rightarrow> error + item_view list" where
  \<comment> \<open>\<open>reports.map((report) => ...)\<close>\<close>
  "render_items format_PPP [] = Inr []"
| "render_items format_PPP (report # reports) =
     (case render_item format_PPP report of
        Inl e \<Rightarrow> Inl e
      | Inr v \<Rightarrow>
          (case render_items format_PPP reports of
             Inl e \<Rightarrow> Inl e
           | Inr vs \<Rightarrow> Inr (v # vs)))"

definition ReportsList :: "(string \<Rightarrow> error + string) \<Rightarrow> Report list \<Rightarrow> error + view" where
  "ReportsList format_PPP reports =
     (if length reports = 0 then Inr (Placeholder ''No reports found'')
      else (case render_items format_PPP reports of
              Inl e \<Rightarrow> Inl e
            | Inr items \<Rightarrow> Inr (Items items)))"

section \<open>Example data\<close>

definition ex_backend :: backend where
  \<comment> \<open>a backend that accepts every call and names the created report \<open>rep-1\<close>\<close>
  "ex_backend =
     \<lparr> insert_single_resp = (\<lambda>h t r. Inr ''rep-1''),
       insert_resp = (\<lambda>h t rs. None),
       rpc_resp = (\<lambda>h n a. None),
       upload_resp = (\<lambda>h b p f. None),
       getPublicUrl = (\<lambda>b p. ''https://store.example/'' @ b @ ''/'' @ p) \<rparr>"

definition ex_failing_backend :: backend where
  \<comment> \<open>as \<open>ex_backend\<close>, but every upload is refused\<close>
  "ex_failing_backend =
     \<lparr> insert_single_resp = (\<lambda>h t r. Inr ''rep-1''),
       insert_resp = (\<lambda>h t rs. None),
       rpc_resp = (\<lambda>h n a. None),
       upload_resp = (\<lambda>h b p f. Some (BackendError ''storage'')),
       getPublicUrl = (\<lambda>b p. ''https://store.example/'' @ b @ ''/'' @ p) \<rparr>"

definition ex_session :: "js_session option" where
  "ex_session = Some \<lparr> user = Some \<lparr> user_id = ''u1'' \<rparr> \<rparr>"

definition ex_form :: ReportFormSchema where
  "ex_form =
     \<lparr> title = ''Theft'', description = ''Bicycle taken'',
       incident_date = Date 1700000000000, incident_time = ''10:00'',
       location = ''Main street'', main_category_id = ''m1'',
       categories = [''s1'', ''s2''],
       files = Some [\<lparr> f_name = ''a.png'', f_type = ''image/png'', f_content = ''x'' \<rparr>] \<rparr>"

definition ex_other_form :: ReportFormSchema where
  \<comment> \<open>another report, dated at the epoch, with no category and no file\<close>
  "ex_other_form =
     \<lparr> title = ''Fire'', description = ''Smoke in the hall'',
       incident_date = Date 0, incident_time = ''23:30'',
       location = ''Station road'', main_category_id = ''m2'',
       categories = [], files = None \<rparr>"

definition ex_other_session :: "js_session option" where
  "ex_other_session = Some \<lparr> user = Some \<lparr> user_id = ''u2'' \<rparr> \<rparr>"

definition ex_state :: ui_state where
  "ex_state = \<lparr> form_values = ex_form, trace = [] \<rparr>"

definition ex_js :: "int \<Rightarrow> js_env" where
  \<comment> \<open>an environment whose clock reads the given time and whose parser knows one date\<close>
  "ex_js t =
     \<lparr> now = t,
       Date_parse = (\<lambda>s. if s = ''2023-11-14'' then Date 1699920000000 else Invalid_Date) \<rparr>"

definition ex_fetched :: fetched_report where
  \<comment> \<open>a stored report with neither date, time nor location\<close>
  "ex_fetched =
     \<lparr> r_title = Some ''Theft'', r_description = None, r_incident_date = None,
       r_incident_time = None, r_location = None, r_main_category_id = Some ''m1'',
       r_report_category_assignments =
         Some [\<lparr> a_subcategory_id = ''s1'', a_main_category_id = ''m1'' \<rparr>] \<rparr>"

definition ex_reports :: "Report list" where
  "ex_reports =
     [\<lparr> rep_id = ''r1'', rep_title = ''A'', rep_status = ''resolved'',
        rep_incident_date = Some ''2023-11-14'', rep_case_categories = Some ''Theft'' \<rparr>,
      \<lparr> rep_id = ''r2'', rep_title = ''B'', rep_status = ''in_progress'',
        rep_incident_date = None, rep_case_categories = None \<rparr>,
      \<lparr> rep_id = ''r3'', rep_title = ''C'', rep_status = ''pending'',
        rep_incident_date = None, rep_case_categories = None \<rparr>]"

section \<open>Properties of the load operation\<close>

lemma or_empty_cases: "or_empty v = (case v of None \<Rightarrow> [] | Some s \<Rightarrow> s)"
  by (simp add: or_empty_def truthy_def split: option.splits)

text \<open>
  What the stored callback does when it is called with a fetched record: every field
  is taken from the record, an absent text becoming the empty string, an absent date
  the clock reading, the assignments the list of their subcategory identifiers.
\<close>

lemma onSettled_fields:
  "onSettled js (Some r) form =
     \<lparr> title = (case r_title r of None \<Rightarrow> [] | Some s \<Rightarrow> s),
       description = (case r_description r of None \<Rightarrow> [] | Some s \<Rightarrow> s),
       incident_date =
         (case r_incident_date r of
            None \<Rightarrow> Date (now js)
          | Some s \<Rightarrow> if s = [] then Date (now js) else Date_parse js s),
       incident_time = (case r_incident_time r of None \<Rightarrow> [] | Some s \<Rightarrow> s),
       location = (case r_location r of None \<Rightarrow> [] | Some s \<Rightarrow> s),
       main_category_id = (case r_main_category_id r of None \<Rightarrow> [] | Some s \<Rightarrow> s),
       categories =
         (case r_report_category_assignments r of
            None \<Rightarrow> []
          | Some as \<Rightarrow> map a_subcategory_id as),
       files = None \<rparr>"
proof -
  have date: "(if truthy (r_incident_date r) then Date_parse js (the (r_incident_date r))
               else Date (now js)) =
              (case r_incident_date r of
                 None \<Rightarrow> Date (now js)
               | Some s \<Rightarrow> if s = [] then Date (now js) else Date_parse js s)"
    by (simp add: truthy_def split: option.splits)
  show ?thesis
    by (simp add: onSettled_def or_empty_cases date)
qed

lemma load_keeps_form: "fst (load select_single ident form) = form"
  by (simp add: load_def)

lemma load_fetches:
  assumes "truthy ident" and "select_single (the ident) = Inr r"
  shows "snd (load select_single ident form) = Some (Inr (Some r))"
  using assms by (simp add: load_def useQuery_def queryFn_def)

text \<open>
  C1: loading the existing report \<open>r1\<close>, stored with the title \<open>Theft\<close>, the
  main category \<open>m1\<close> and one assignment to the subcategory \<open>s1\<close>, over the
  default form. The record is fetched, but the form is not populated from it: the
  form is still the default form, with an empty title, an empty main category and no
  category, where the stored callback, had it been called with the record, would
  have put \<open>Theft\<close>, \<open>m1\<close> and \<open>s1\<close>.
\<close>

theorem load_leaves_form_unpopulated:
  "snd (load (\<lambda>i. Inr ex_fetched) (Some ''r1'') (defaultValues 0)) = Some (Inr (Some ex_fetched))
   \<and> r_title ex_fetched = Some ''Theft''
   \<and> fst (load (\<lambda>i. Inr ex_fetched) (Some ''r1'') (defaultValues 0)) = defaultValues 0
   \<and> title (fst (load (\<lambda>i. Inr ex_fetched) (Some ''r1'') (defaultValues 0))) = []
   \<and> main_category_id (fst (load (\<lambda>i. Inr ex_fetched) (Some ''r1'') (defaultValues 0))) = []
   \<and> categories (fst (load (\<lambda>i. Inr ex_fetched) (Some ''r1'') (defaultValues 0))) = []
   \<and> title (onSettled (ex_js 1700000000000) (Some ex_fetched) (defaultValues 0)) = ''Theft''
   \<and> main_category_id (onSettled (ex_js 1700000000000) (Some ex_fetched) (defaultValues 0)) =
       ''m1''
   \<and> categories (onSettled (ex_js 1700000000000) (Some ex_fetched) (defaultValues 0)) = [''s1'']"
  by (simp add: load_def useQuery_def queryFn_def truthy_def onSettled_fields ex_fetched_def
      defaultValues_def)

section \<open>The steps of a submission\<close>

text \<open>
  Each step extends the trace. A step that throws has issued only write calls, one of
  which failed; a step that returns has issued exactly the calls of its success path.
\<close>

lemma Promise_all_Inr: "Promise_all ps = Inr xs \<Longrightarrow> ps = map Inr xs"
proof (induction ps arbitrary: xs)
  case Nil
  then show ?case by auto
next
  case (Cons p ps)
  then show ?case by (cases p) (auto split: sum.splits)
qed

lemma Promise_all_Inl: "Promise_all ps = Inl e \<Longrightarrow> Inl e \<in> set ps"
proof (induction ps)
  case Nil
  then show ?case by simp
next
  case (Cons p ps)
  then show ?case by (cases p) (auto split: sum.splits)
qed

lemma uploadPromises_shape:
  "uploadPromises be rid uid fs tr = (ps, tr') \<Longrightarrow>
     \<exists>evs. tr' = tr @ evs \<and> length evs = length fs
       \<and> (\<forall>e\<in>set evs. is_upload e)
       \<and> ((\<exists>e. Inl e \<in> set ps) \<longleftrightarrow> (\<exists>e\<in>set evs. failed e))
       \<and> ((\<forall>e\<in>set evs. \<not> failed e) \<longrightarrow>
            evs = map (\<lambda>f. Upload ''evidence'' (rid @ ''/'' @ f_name f) f None) fs
            \<and> ps = map (\<lambda>f. Inr (evidence_row be rid uid f)) fs)"
proof (induction fs arbitrary: tr ps tr')
  case Nil
  then show ?case by simp
next
  case (Cons f fs)
  let ?r = "upload_resp be tr ''evidence'' (rid @ ''/'' @ f_name f) f"
  let ?ev = "Upload ''evidence'' (rid @ ''/'' @ f_name f) f ?r"
  obtain ps1 tr2 where rec: "uploadPromises be rid uid fs (tr @ [?ev]) = (ps1, tr2)"
    by fastforce
  from Cons.IH [OF rec] obtain evs where
    evs: "tr2 = (tr @ [?ev]) @ evs" "length evs = length fs" "\<forall>e\<in>set evs. is_upload e"
      "(\<exists>e. Inl e \<in> set ps1) \<longleftrightarrow> (\<exists>e\<in>set evs. failed e)"
      "(\<forall>e\<in>set evs. \<not> failed e) \<longrightarrow>
            evs = map (\<lambda>f. Upload ''evidence'' (rid @ ''/'' @ f_name f) f None) fs
            \<and> ps1 = map (\<lambda>f. Inr (evidence_row be rid uid f)) fs"
    by blast
  from Cons.prems rec have res: "tr' = tr2"
    "ps = (case ?r of Some e \<Rightarrow> Inl e | None \<Rightarrow> Inr (evidence_row be rid uid f)) # ps1"
    by (auto simp: Let_def)
  show ?case
  proof (intro exI [of _ "?ev # evs"] conjI)
    show "tr' = tr @ ?ev # evs" using res evs by simp
    show "length (?ev # evs) = length (f # fs)" using evs by simp
    show "\<forall>e\<in>set (?ev # evs). is_upload e" using evs by simp
    show "(\<exists>e. Inl e \<in> set ps) \<longleftrightarrow> (\<exists>e\<in>set (?ev # evs). failed e)"
      using evs(4) res(2) by (cases ?r) auto
    show "(\<forall>e\<in>set (?ev # evs). \<not> failed e) \<longrightarrow>
            ?ev # evs = map (\<lambda>f. Upload ''evidence'' (rid @ ''/'' @ f_name f) f None) (f # fs)
            \<and> ps = map (\<lambda>f. Inr (evidence_row be rid uid f)) (f # fs)"
      using evs(5) res(2) by (cases ?r) auto
  qed
qed

lemma map_Inr_eq:
  "ps = map Inr xs \<Longrightarrow> ps = map (\<lambda>f. Inr (g f)) fs \<Longrightarrow> xs = map g fs"
  by (induction fs arbitrary: xs ps) auto

lemma is_upload_records: "is_upload e \<Longrightarrow> records_non_primary m e"
  by (cases e) (auto simp: records_non_primary_def)

lemma category_rows_records:
  "records_non_primary (main_category_id data)
     (Insert ''report_category_assignments'' (category_rows rid data) resp)"
  by (simp add: records_non_primary_def category_rows_def list_all_iff)

lemma is_upload_is_write: "is_upload e \<Longrightarrow> is_write e"
  by (cases e) auto

lemma upload_files_shape:
  assumes "upload_files be rid uid data tr = (res, tr')"
  shows "\<exists>evs. tr' = tr @ evs \<and> (\<forall>e\<in>set evs. is_write e \<and> records_non_primary (main_category_id data) e)
      \<and> (isl res \<longleftrightarrow> (\<exists>e\<in>set evs. failed e))
      \<and> (\<not> isl res \<longrightarrow>
           evs = (case files data of
                    None \<Rightarrow> []
                  | Some fs \<Rightarrow>
                      if fs = [] then []
                      else map (\<lambda>f. Upload ''evidence'' (rid @ ''/'' @ f_name f) f None) fs @
                           [Insert ''evidence'' (map (evidence_row be rid uid) fs) None]))"
proof (cases "files data")
  case None
  with assms show ?thesis by (auto simp: upload_files_def)
next
  case (Some fs)
  show ?thesis
  proof (cases "fs = []")
    case True
    with Some assms show ?thesis by (auto simp: upload_files_def)
  next
    case False
    obtain ps tr1 where up: "uploadPromises be rid uid fs tr = (ps, tr1)"
      by fastforce
    from uploadPromises_shape [OF up] obtain evs where
      evs: "tr1 = tr @ evs" "\<forall>e\<in>set evs. is_upload e"
        "(\<exists>e. Inl e \<in> set ps) \<longleftrightarrow> (\<exists>e\<in>set evs. failed e)"
        "(\<forall>e\<in>set evs. \<not> failed e) \<longrightarrow>
            evs = map (\<lambda>f. Upload ''evidence'' (rid @ ''/'' @ f_name f) f None) fs
            \<and> ps = map (\<lambda>f. Inr (evidence_row be rid uid f)) fs"
      by blast
    have w: "\<forall>e\<in>set evs. is_write e \<and> records_non_primary (main_category_id data) e"
      using evs(2) is_upload_is_write is_upload_records by blast
    show ?thesis
    proof (cases "Promise_all ps")
      case (Inl e)
      with assms Some False up have r: "res = Inl e" "tr' = tr1"
        by (auto simp: upload_files_def)
      from Promise_all_Inl [OF Inl] evs(3) have "\<exists>e\<in>set evs. failed e"
        by blast
      with r evs(1) w show ?thesis by auto
    next
      case (Inr xs)
      from Promise_all_Inr [OF Inr] have ps: "ps = map Inr xs" .
      then have "\<not> (\<exists>e. Inl e \<in> set ps)" by auto
      with evs(3) have nf: "\<forall>e\<in>set evs. \<not> failed e" by blast
      with evs(4) have sh:
        "evs = map (\<lambda>f. Upload ''evidence'' (rid @ ''/'' @ f_name f) f None) fs"
        "ps = map (\<lambda>f. Inr (evidence_row be rid uid f)) fs"
        by blast+
      have xs: "xs = map (evidence_row be rid uid) fs"
        using map_Inr_eq [OF ps sh(2)] .
      let ?r = "insert_resp be tr1 ''evidence'' xs"
      from assms Some False up Inr have r:
        "res = (case ?r of Some e \<Rightarrow> Inl e | None \<Rightarrow> Inr ())"
        "tr' = tr1 @ [Insert ''evidence'' xs ?r]"
        by (auto simp: upload_files_def Let_def split: option.splits)
      show ?thesis
      proof (intro exI [of _ "evs @ [Insert ''evidence'' xs ?r]"] conjI)
        show "tr' = tr @ evs @ [Insert ''evidence'' xs ?r]"
          using r evs(1) by simp
        show "\<forall>e\<in>set (evs @ [Insert ''evidence'' xs ?r]).
                is_write e \<and> records_non_primary (main_category_id data) e"
          using w by (simp add: records_non_primary_def)
        show "isl res \<longleftrightarrow> (\<exists>e\<in>set (evs @ [Insert ''evidence'' xs ?r]). failed e)"
          using r(1) nf by (cases ?r) auto
        show "\<not> isl res \<longrightarrow>
           evs @ [Insert ''evidence'' xs ?r] =
             (case files data of
                None \<Rightarrow> []
              | Some fs \<Rightarrow>
                  if fs = [] then []
                  else map (\<lambda>f. Upload ''evidence'' (rid @ ''/'' @ f_name f) f None) fs @
                       [Insert ''evidence'' (map (evidence_row be rid uid) fs) None])"
          using r(1) Some False sh(1) xs by (cases ?r) auto
      qed
    qed
  qed
qed

lemma insert_categories_shape:
  assumes "insert_categories be rid data tr = (res, tr')"
  shows "\<exists>evs. tr' = tr @ evs \<and> (\<forall>e\<in>set evs. is_write e \<and> records_non_primary (main_category_id data) e)
      \<and> (isl res \<longleftrightarrow> (\<exists>e\<in>set evs. failed e))
      \<and> (\<not> isl res \<longrightarrow>
           evs = (if categories data = [] then []
                  else [Insert ''report_category_assignments'' (category_rows rid data) None]))"
proof (cases "categories data = []")
  case True
  with assms show ?thesis by (auto simp: insert_categories_def)
next
  case False
  let ?r = "insert_resp be tr ''report_category_assignments'' (category_rows rid data)"
  from assms False have r:
    "res = (case ?r of Some e \<Rightarrow> Inl e | None \<Rightarrow> Inr ())"
    "tr' = tr @ [Insert ''report_category_assignments'' (category_rows rid data) ?r]"
    by (auto simp: insert_categories_def Let_def split: option.splits)
  show ?thesis
    using r False category_rows_records [of data rid ?r] by (cases ?r) auto
qed

lemma update_path_shape:
  assumes "update_path be ident rd data tr = (res, tr')"
  shows "\<exists>resp. tr' = tr @ Rpc ''update_report_with_categories'' (rpc_args ident rd data) resp #
                    (if resp = None then [Toast updated_toast] else [])
      \<and> (isl res \<longleftrightarrow> resp \<noteq> None)"
proof -
  let ?r = "rpc_resp be tr ''update_report_with_categories'' (rpc_args ident rd data)"
  from assms show ?thesis
    by (intro exI [of _ ?r]) (auto simp: update_path_def Let_def split: option.splits)
qed

lemma create_path_shape:
  assumes "create_path be rd uid data tr = (res, tr')"
  shows "\<exists>evs. tr' = tr @ evs
      \<and> (isl res \<longrightarrow>
            (\<forall>e\<in>set evs. is_write e \<and> records_non_primary (main_category_id data) e)
            \<and> (\<exists>e\<in>set evs. failed e))
      \<and> (\<not> isl res \<longrightarrow>
            (\<exists>rid. evs =
               InsertSingle ''reports'' rd (Inr rid) #
               (if categories data = [] then []
                else [Insert ''report_category_assignments'' (category_rows rid data) None]) @
               (case files data of
                  None \<Rightarrow> []
                | Some fs \<Rightarrow>
                    if fs = [] then []
                    else map (\<lambda>f. Upload ''evidence'' (rid @ ''/'' @ f_name f) f None) fs @
                         [Insert ''evidence'' (map (evidence_row be rid uid) fs) None]) @
               [Toast created_toast]))"
proof (cases "insert_single_resp be tr ''reports'' rd")
  case (Inl e)
  with assms have "res = Inl e" "tr' = tr @ [InsertSingle ''reports'' rd (Inl e)]"
    by (simp_all add: create_path_def Let_def)
  then show ?thesis by (simp add: records_non_primary_def)
next
  case (Inr rid)
  let ?e1 = "InsertSingle ''reports'' rd (Inr rid)"
  obtain res2 tr2 where c: "insert_categories be rid data (tr @ [?e1]) = (res2, tr2)"
    by fastforce
  from insert_categories_shape [OF c] obtain evs2 where
    evs2: "tr2 = (tr @ [?e1]) @ evs2"
      "\<forall>e\<in>set evs2. is_write e \<and> records_non_primary (main_category_id data) e"
      "isl res2 \<longleftrightarrow> (\<exists>e\<in>set evs2. failed e)"
      "\<not> isl res2 \<longrightarrow>
           evs2 = (if categories data = [] then []
                  else [Insert ''report_category_assignments'' (category_rows rid data) None])"
    by blast
  have g1: "is_write ?e1 \<and> records_non_primary (main_category_id data) ?e1"
    by (simp add: records_non_primary_def)
  show ?thesis
  proof (cases res2)
    case (Inl e)
    with assms Inr c have r: "res = Inl e" "tr' = tr2"
      by (simp_all add: create_path_def Let_def)
    show ?thesis
    proof (intro exI [of _ "?e1 # evs2"] conjI impI)
      show "tr' = tr @ ?e1 # evs2" using r evs2(1) by simp
      show "\<forall>e\<in>set (?e1 # evs2). is_write e \<and> records_non_primary (main_category_id data) e"
        using g1 evs2(2) by simp
      show "\<exists>e\<in>set (?e1 # evs2). failed e" using evs2(3) Inl by simp
    next
      assume "\<not> isl res"
      with r show "\<exists>rid'. ?e1 # evs2 =
               InsertSingle ''reports'' rd (Inr rid') #
               (if categories data = [] then []
                else [Insert ''report_category_assignments'' (category_rows rid' data) None]) @
               (case files data of
                  None \<Rightarrow> []
                | Some fs \<Rightarrow>
                    if fs = [] then []
                    else map (\<lambda>f. Upload ''evidence'' (rid' @ ''/'' @ f_name f) f None) fs @
                         [Insert ''evidence'' (map (evidence_row be rid' uid) fs) None]) @
               [Toast created_toast]" by simp
    qed
  next
    case r2: (Inr u)
    obtain res3 tr3 where u: "upload_files be rid uid data tr2 = (res3, tr3)"
      by fastforce
    from upload_files_shape [OF u] obtain evs3 where
      evs3: "tr3 = tr2 @ evs3"
        "\<forall>e\<in>set evs3. is_write e \<and> records_non_primary (main_category_id data) e"
        "isl res3 \<longleftrightarrow> (\<exists>e\<in>set evs3. failed e)"
        "\<not> isl res3 \<longrightarrow>
           evs3 = (case files data of
                    None \<Rightarrow> []
                  | Some fs \<Rightarrow>
                      if fs = [] then []
                      else map (\<lambda>f. Upload ''evidence'' (rid @ ''/'' @ f_name f) f None) fs @
                           [Insert ''evidence'' (map (evidence_row be rid uid) fs) None])"
      by blast
    show ?thesis
    proof (cases res3)
      case (Inl e)
      with assms Inr c r2 u have r: "res = Inl e" "tr' = tr3"
        by (simp_all add: create_path_def Let_def)
      show ?thesis
      proof (intro exI [of _ "?e1 # evs2 @ evs3"] conjI impI)
        show "tr' = tr @ ?e1 # evs2 @ evs3" using r evs2(1) evs3(1) by simp
        show "\<forall>e\<in>set (?e1 # evs2 @ evs3).
                is_write e \<and> records_non_primary (main_category_id data) e"
          using g1 evs2(2) evs3(2) by auto
        show "\<exists>e\<in>set (?e1 # evs2 @ evs3). failed e" using evs3(3) Inl by auto
      next
        assume "\<not> isl res"
        with r show "\<exists>rid'. ?e1 # evs2 @ evs3 =
               InsertSingle ''reports'' rd (Inr rid') #
               (if categories data = [] then []
                else [Insert ''report_category_assignments'' (category_rows rid' data) None]) @
               (case files data of
                  None \<Rightarrow> []
                | Some fs \<Rightarrow>
                    if fs = [] then []
                    else map (\<lambda>f. Upload ''evidence'' (rid' @ ''/'' @ f_name f) f None) fs @
                         [Insert ''evidence'' (map (evidence_row be rid' uid) fs) None]) @
               [Toast created_toast]" by simp
      qed
    next
      case r3: (Inr u')
      with assms Inr c r2 u have r: "res = Inr ()" "tr' = tr3 @ [Toast created_toast]"
        by (simp_all add: create_path_def Let_def)
      have e2: "evs2 = (if categories data = [] then []
                  else [Insert ''report_category_assignments'' (category_rows rid data) None])"
        using evs2(4) r2 by simp
      have e3: "evs3 = (case files data of
                    None \<Rightarrow> []
                  | Some fs \<Rightarrow>
                      if fs = [] then []
                      else map (\<lambda>f. Upload ''evidence'' (rid @ ''/'' @ f_name f) f None) fs @
                           [Insert ''evidence'' (map (evidence_row be rid uid) fs) None])"
        using evs3(4) r3 by simp
      show ?thesis
      proof (intro exI [of _ "?e1 # evs2 @ evs3 @ [Toast created_toast]"] conjI impI)
        show "tr' = tr @ ?e1 # evs2 @ evs3 @ [Toast created_toast]"
          using r evs2(1) evs3(1) by simp
      next
        assume "isl res"
        with r show "\<forall>e\<in>set (?e1 # evs2 @ evs3 @ [Toast created_toast]).
                is_write e \<and> records_non_primary (main_category_id data) e" by simp
      next
        assume "isl res"
        with r show "\<exists>e\<in>set (?e1 # evs2 @ evs3 @ [Toast created_toast]). failed e" by simp
      next
        show "\<exists>rid'. ?e1 # evs2 @ evs3 @ [Toast created_toast] =
               InsertSingle ''reports'' rd (Inr rid') #
               (if categories data = [] then []
                else [Insert ''report_category_assignments'' (category_rows rid' data) None]) @
               (case files data of
                  None \<Rightarrow> []
                | Some fs \<Rightarrow>
                    if fs = [] then []
                    else map (\<lambda>f. Upload ''evidence'' (rid' @ ''/'' @ f_name f) f None) fs @
                         [Insert ''evidence'' (map (evidence_row be rid' uid) fs) None]) @
               [Toast created_toast]"
          by (rule exI [of _ rid]) (simp only: e2 [symmetric] e3 [symmetric])
      qed
    qed
  qed
qed

lemma toISOString_valid: "is_valid_Date d \<Longrightarrow> \<exists>s. toISOString d = Inr s"
  by (cases d) (auto simp: is_valid_Date_def toISOString_def Let_def split: prod.splits)

lemma toISOString_invalid: "\<not> is_valid_Date d \<Longrightarrow> toISOString d = Inl RangeError"
  by (cases d) (auto simp: is_valid_Date_def toISOString_def)

lemma trace_onSubmit:
  "trace (onSubmit be session ident data st) = trace st @ submit_events be session ident data st"
proof -
  obtain res tr' where r: "onSubmit_try be session ident data (trace st) = (res, tr')"
    by fastforce
  have "\<exists>evs. tr' = trace st @ evs"
  proof (cases "truthy (session_user_id session)")
    case False
    with r show ?thesis by (auto simp: onSubmit_try_def)
  next
    case True
    show ?thesis
    proof (cases "toISOString (incident_date data)")
      case (Inl e)
      with r True show ?thesis by (auto simp: onSubmit_try_def)
    next
      case (Inr s)
      let ?rd = "reportData data (split_T_0 s) (the (session_user_id session))"
      show ?thesis
      proof (cases "truthy ident")
        case t: True
        obtain res1 tr1 where u: "update_path be (the ident) ?rd data (trace st) = (res1, tr1)"
          by fastforce
        from update_path_shape [OF u] obtain resp where
          "tr1 = trace st @ Rpc ''update_report_with_categories'' (rpc_args (the ident) ?rd data) resp #
                    (if resp = None then [Toast updated_toast] else [])" by blast
        with r True Inr t u show ?thesis
          by (cases res1) (auto simp: onSubmit_try_def Let_def)
      next
        case f: False
        obtain res1 tr1 where u: "create_path be ?rd (the (session_user_id session)) data (trace st) = (res1, tr1)"
          by fastforce
        from create_path_shape [OF u] obtain evs where "tr1 = trace st @ evs" by blast
        with r True Inr f u show ?thesis
          by (cases res1) (auto simp: onSubmit_try_def Let_def)
      qed
    qed
  qed
  then obtain evs where "tr' = trace st @ evs" by blast
  with r show ?thesis
    by (cases res) (auto simp: onSubmit_def submit_events_def)
qed

lemma form_values_onSubmit:
  "form_values (onSubmit be session ident data st) = form_values st"
  by (auto simp: onSubmit_def split: prod.splits sum.splits)

lemma submit_events_unauthenticated:
  assumes "\<not> truthy (session_user_id session)"
  shows "submit_events be session ident data st = [Toast auth_error_toast]"
  using assms by (simp add: submit_events_def onSubmit_def onSubmit_try_def)

lemma submit_events_invalid_date:
  assumes "truthy (session_user_id session)" "\<not> is_valid_Date (incident_date data)"
  shows "submit_events be session ident data st = [Toast generic_error_toast]"
  using assms toISOString_invalid [OF assms(2)]
  by (simp add: submit_events_def onSubmit_def onSubmit_try_def)

lemma submit_events_update:
  assumes "truthy (session_user_id session)" "toISOString (incident_date data) = Inr s"
    "truthy ident"
  shows "\<exists>resp. submit_events be session ident data st =
           Rpc ''update_report_with_categories''
             (rpc_args (the ident)
                (reportData data (split_T_0 s) (the (session_user_id session))) data) resp #
           (if resp = None then [Toast updated_toast, Navigate ''/dashboard'']
            else [Toast generic_error_toast])"
proof -
  let ?rd = "reportData data (split_T_0 s) (the (session_user_id session))"
  obtain res1 tr1 where u: "update_path be (the ident) ?rd data (trace st) = (res1, tr1)"
    by fastforce
  from update_path_shape [OF u] obtain resp where
    sh: "tr1 = trace st @ Rpc ''update_report_with_categories'' (rpc_args (the ident) ?rd data) resp #
                    (if resp = None then [Toast updated_toast] else [])"
      "isl res1 \<longleftrightarrow> resp \<noteq> None" by blast
  show ?thesis
    using assms u sh
    by (intro exI [of _ resp], cases res1)
       (auto simp: submit_events_def onSubmit_def onSubmit_try_def Let_def)
qed

lemma create_path_first:
  assumes "create_path be rd uid data tr = (res, tr')"
  shows "\<exists>resp evs. tr' = tr @ InsertSingle ''reports'' rd resp # evs"
proof (cases "insert_single_resp be tr ''reports'' rd")
  case (Inl e)
  with assms have "tr' = tr @ [InsertSingle ''reports'' rd (Inl e)]"
    by (simp add: create_path_def Let_def)
  then show ?thesis by blast
next
  case (Inr rid)
  let ?e1 = "InsertSingle ''reports'' rd (Inr rid)"
  obtain res2 tr2 where c: "insert_categories be rid data (tr @ [?e1]) = (res2, tr2)"
    by fastforce
  from insert_categories_shape [OF c] obtain evs2 where evs2: "tr2 = (tr @ [?e1]) @ evs2"
    by blast
  obtain res3 tr3 where u: "upload_files be rid uid data tr2 = (res3, tr3)"
    by fastforce
  from upload_files_shape [OF u] obtain evs3 where evs3: "tr3 = tr2 @ evs3"
    by blast
  have "tr' = tr2 \<or> tr' = tr3 \<or> tr' = tr3 @ [Toast created_toast]"
    using assms Inr c u
    by (cases res2; cases res3) (simp_all add: create_path_def Let_def)
  with evs2 evs3 show ?thesis by auto
qed

lemma submit_events_create:
  assumes "truthy (session_user_id session)" "toISOString (incident_date data) = Inr s"
    "\<not> truthy ident"
  shows "(\<exists>ws. submit_events be session ident data st = ws @ [Toast generic_error_toast]
            \<and> (\<forall>e\<in>set ws. is_write e \<and> records_non_primary (main_category_id data) e)
            \<and> (\<exists>e\<in>set ws. failed e))
       \<or> (\<exists>rid. submit_events be session ident data st =
             InsertSingle ''reports''
               (reportData data (split_T_0 s) (the (session_user_id session))) (Inr rid) #
             (if categories data = [] then []
              else [Insert ''report_category_assignments'' (category_rows rid data) None]) @
             (case files data of
                None \<Rightarrow> []
              | Some fs \<Rightarrow>
                  if fs = [] then []
                  else map (\<lambda>f. Upload ''evidence'' (rid @ ''/'' @ f_name f) f None) fs @
                       [Insert ''evidence''
                          (map (evidence_row be rid (the (session_user_id session))) fs) None]) @
             [Toast created_toast, Navigate ''/dashboard''])"
proof -
  let ?uid = "the (session_user_id session)"
  let ?rd = "reportData data (split_T_0 s) ?uid"
  obtain res1 tr1 where u: "create_path be ?rd ?uid data (trace st) = (res1, tr1)"
    by fastforce
  from create_path_shape [OF u] obtain evs where
    sh: "tr1 = trace st @ evs"
      "isl res1 \<longrightarrow>
            (\<forall>e\<in>set evs. is_write e \<and> records_non_primary (main_category_id data) e)
            \<and> (\<exists>e\<in>set evs. failed e)"
      "\<not> isl res1 \<longrightarrow>
            (\<exists>rid. evs =
               InsertSingle ''reports'' ?rd (Inr rid) #
               (if categories data = [] then []
                else [Insert ''report_category_assignments'' (category_rows rid data) None]) @
               (case files data of
                  None \<Rightarrow> []
                | Some fs \<Rightarrow>
                    if fs = [] then []
                    else map (\<lambda>f. Upload ''evidence'' (rid @ ''/'' @ f_name f) f None) fs @
                         [Insert ''evidence'' (map (evidence_row be rid ?uid) fs) None]) @
               [Toast created_toast])"
    by blast
  show ?thesis
  proof (cases res1)
    case (Inl e)
    with assms u sh(1) have "submit_events be session ident data st = evs @ [Toast generic_error_toast]"
      by (simp add: submit_events_def onSubmit_def onSubmit_try_def Let_def)
    with sh(2) Inl show ?thesis by auto
  next
    case (Inr x)
    with assms u sh(1) have ev: "submit_events be session ident data st = evs @ [Navigate ''/dashboard'']"
      by (simp add: submit_events_def onSubmit_def onSubmit_try_def Let_def)
    from sh(3) Inr obtain rid where "evs =
               InsertSingle ''reports'' ?rd (Inr rid) #
               (if categories data = [] then []
                else [Insert ''report_category_assignments'' (category_rows rid data) None]) @
               (case files data of
                  None \<Rightarrow> []
                | Some fs \<Rightarrow>
                    if fs = [] then []
                    else map (\<lambda>f. Upload ''evidence'' (rid @ ''/'' @ f_name f) f None) fs @
                         [Insert ''evidence'' (map (evidence_row be rid ?uid) fs) None]) @
               [Toast created_toast]" by auto
    with ev show ?thesis by auto
  qed
qed

lemma submit_events_create_first:
  assumes "truthy (session_user_id session)" "toISOString (incident_date data) = Inr s"
    "\<not> truthy ident"
  shows "\<exists>resp evs. submit_events be session ident data st =
      InsertSingle ''reports''
        (reportData data (split_T_0 s) (the (session_user_id session))) resp # evs"
proof -
  let ?uid = "the (session_user_id session)"
  let ?rd = "reportData data (split_T_0 s) ?uid"
  obtain res1 tr1 where u: "create_path be ?rd ?uid data (trace st) = (res1, tr1)"
    by fastforce
  from create_path_first [OF u] obtain resp evs where
    sh: "tr1 = trace st @ InsertSingle ''reports'' ?rd resp # evs" by blast
  show ?thesis
    using assms u sh
    by (cases res1) (simp_all add: submit_events_def onSubmit_def onSubmit_try_def Let_def)
qed

lemma ex_create_run:
  "submit_events ex_backend ex_session None ex_form ex_state =
     [InsertSingle ''reports''
        [(''title'', JString ''Theft''), (''description'', JString ''Bicycle taken''),
         (''incident_date'', JString ''2023-11-14''), (''incident_time'', JString ''10:00''),
         (''location'', JString ''Main street''), (''main_category_id'', JString ''m1''),
         (''user_id'', JString ''u1'')]
        (Inr ''rep-1''),
      Insert ''report_category_assignments''
        [[(''report_id'', JString ''rep-1''), (''subcategory_id'', JString ''s1''),
          (''main_category_id'', JString ''m1''), (''is_primary'', JBool False)],
         [(''report_id'', JString ''rep-1''), (''subcategory_id'', JString ''s2''),
          (''main_category_id'', JString ''m1''), (''is_primary'', JBool False)]]
        None,
      Upload ''evidence'' ''rep-1/a.png''
        \<lparr> f_name = ''a.png'', f_type = ''image/png'', f_content = ''x'' \<rparr> None,
      Insert ''evidence''
        [[(''report_id'', JString ''rep-1''),
          (''file_url'', JString ''https://store.example/evidence/rep-1/a.png''),
          (''file_type'', JString ''image/png''), (''uploaded_by'', JString ''u1'')]]
        None,
      Toast created_toast,
      Navigate ''/dashboard'']"
  by code_simp

section \<open>Submitting without a session, and the update path\<close>

lemma ex_update_run:
  "submit_events ex_backend ex_session (Some ''r7'') ex_form ex_state =
     [Rpc ''update_report_with_categories''
        [(''p_report_id'', JString ''r7''),
         (''p_report_data'',
          JObject
            [(''title'', JString ''Theft''), (''description'', JString ''Bicycle taken''),
             (''incident_date'', JString ''2023-11-14''), (''incident_time'', JString ''10:00''),
             (''location'', JString ''Main street''), (''main_category_id'', JString ''m1''),
             (''user_id'', JString ''u1'')]),
         (''p_categories'',
          JArray
            [JObject [(''subcategory_id'', JString ''s1''), (''main_category_id'', JString ''m1''),
                      (''is_primary'', JBool False)],
             JObject [(''subcategory_id'', JString ''s2''), (''main_category_id'', JString ''m1''),
                      (''is_primary'', JBool False)]])]
        None,
      Toast updated_toast,
      Navigate ''/dashboard'']"
  by code_simp

lemma ex_failing_run:
  "submit_events ex_failing_backend ex_session None ex_form ex_state =
     [InsertSingle ''reports''
        [(''title'', JString ''Theft''), (''description'', JString ''Bicycle taken''),
         (''incident_date'', JString ''2023-11-14''), (''incident_time'', JString ''10:00''),
         (''location'', JString ''Main street''), (''main_category_id'', JString ''m1''),
         (''user_id'', JString ''u1'')]
        (Inr ''rep-1''),
      Insert ''report_category_assignments''
        [[(''report_id'', JString ''rep-1''), (''subcategory_id'', JString ''s1''),
          (''main_category_id'', JString ''m1''), (''is_primary'', JBool False)],
         [(''report_id'', JString ''rep-1''), (''subcategory_id'', JString ''s2''),
          (''main_category_id'', JString ''m1''), (''is_primary'', JBool False)]]
        None,
      Upload ''evidence'' ''rep-1/a.png''
        \<lparr> f_name = ''a.png'', f_type = ''image/png'', f_content = ''x'' \<rparr>
        (Some (BackendError ''storage'')),
      Toast generic_error_toast]"
  by code_simp

lemma ex_session_truthy: "truthy (session_user_id ex_session)"
  by code_simp

lemma ex_form_valid: "is_valid_Date (incident_date ex_form)"
  by code_simp

text \<open>
  C2: without an authenticated session (no session, no user, or an empty user
  identifier), a submission of any form data shows the authentication error toast and
  does nothing else: no call reaches the backend (no report insert, no assignment
  insert, no upload, no evidence insert, no procedure call), nothing is navigated
  to, and the form values stay as they are.
\<close>

theorem submit_without_session:
  assumes "\<not> truthy (session_user_id session)"
  shows "submit_events be session ident data st = [Toast auth_error_toast]
       \<and> filter is_backend_call (submit_events be session ident data st) = []
       \<and> filter is_navigate (submit_events be session ident data st) = []
       \<and> toasts (submit_events be session ident data st) = [auth_error_toast]
       \<and> t_description auth_error_toast = ''You must be logged in to submit a report''
       \<and> trace (onSubmit be session ident data st) = trace st @ [Toast auth_error_toast]
       \<and> form_values (onSubmit be session ident data st) = form_values st"
  using submit_events_unauthenticated [OF assms, of be ident data st]
    trace_onSubmit [of be session ident data st]
  by (simp add: toasts_def form_values_onSubmit auth_error_toast_def)

theorem submit_without_session_witness:
  "\<not> truthy (session_user_id None)
   \<and> submit_events ex_backend None None ex_form ex_state = [Toast auth_error_toast]
   \<and> filter is_backend_call (submit_events ex_backend None None ex_form ex_state) = []
   \<and> trace (onSubmit ex_backend None None ex_form ex_state) = [Toast auth_error_toast]"
proof -
  have h: "\<not> truthy (session_user_id None)"
    by (simp add: truthy_def session_user_id_def)
  show ?thesis
    using h submit_without_session [OF h, of ex_backend None ex_form ex_state]
    by (simp add: ex_state_def)
qed

lemma digit_char_not_T: "digit_char k \<noteq> CHR ''T''"
proof -
  have "nat (k mod 10) < length ''0123456789''"
    by simp
  then have "digit_char k \<in> set ''0123456789''"
    unfolding digit_char_def by (rule nth_mem)
  then show ?thesis by auto
qed

lemma pad_digits_no_T: "CHR ''T'' \<notin> set (pad_digits n k)"
proof (induction n arbitrary: k)
  case 0
  then show ?case by simp
next
  case (Suc n)
  from Suc [of "k div 10"] digit_char_not_T [of k] show ?case
    by (simp del: One_nat_def)
qed

lemma iso_year_no_T: "CHR ''T'' \<notin> set (iso_year y)"
  by (simp add: iso_year_def pad_digits_no_T)

text \<open>
  The text of \<open>toISOString\<close> is a date part without the letter \<open>T\<close>, the letter
  \<open>T\<close> and a time part; \<open>split('T')[0]\<close> is the date part.
\<close>

lemma toISOString_date_part:
  assumes "toISOString d = Inr s"
  shows "\<exists>date_text time_text.
           s = date_text @ ''T'' @ time_text \<and> CHR ''T'' \<notin> set date_text
         \<and> split_T_0 s = date_text"
proof -
  from assms obtain t where d: "d = Date t" and r: "\<bar>t\<bar> \<le> max_time_value"
    by (cases d) (auto simp: toISOString_def split: if_splits)
  obtain y m dd where c: "civil_from_days (t div 86400000) = (y, m, dd)"
    by (cases "civil_from_days (t div 86400000)") auto
  let ?date = "iso_year y @ ''-'' @ pad_digits 2 m @ ''-'' @ pad_digits 2 dd"
  let ?ms = "t mod 86400000"
  let ?time = "pad_digits 2 (?ms div 3600000) @ '':'' @
                     pad_digits 2 (?ms div 60000 mod 60) @ '':'' @
                     pad_digits 2 (?ms div 1000 mod 60) @ ''.'' @
                     pad_digits 3 (?ms mod 1000) @ ''Z''"
  have s: "s = ?date @ ''T'' @ ?time"
    using assms d r c by (simp add: toISOString_def Let_def)
  have n: "CHR ''T'' \<notin> set ?date"
    using iso_year_no_T [of y] pad_digits_no_T [of 2 m] pad_digits_no_T [of 2 dd] by simp
  have "takeWhile (\<lambda>c. c \<noteq> CHR ''T'') (?date @ ''T'' @ ?time) = ?date"
    using n by (subst takeWhile_append2) auto
  then have "split_T_0 s = ?date"
    by (simp only: s split_T_0_def)
  with s n show ?thesis by blast
qed

lemma truthy_session:
  assumes "truthy (session_user_id session)"
  shows "\<exists>s u. session = Some s \<and> user s = Some u \<and> user_id u \<noteq> []
           \<and> the (session_user_id session) = user_id u"
  using assms by (auto simp: truthy_def session_user_id_def split: option.splits)

lemma ex_other_update_run:
  "submit_events ex_backend ex_other_session (Some ''r8'') ex_other_form ex_state =
     [Rpc ''update_report_with_categories''
        [(''p_report_id'', JString ''r8''),
         (''p_report_data'',
          JObject
            [(''title'', JString ''Fire''), (''description'', JString ''Smoke in the hall''),
             (''incident_date'', JString ''1970-01-01''), (''incident_time'', JString ''23:30''),
             (''location'', JString ''Station road''), (''main_category_id'', JString ''m2''),
             (''user_id'', JString ''u2'')]),
         (''p_categories'', JArray [])]
        None,
      Toast updated_toast,
      Navigate ''/dashboard'']"
  by code_simp

text \<open>
  C5: on the update path (a route identifier is present, the session has a user
  identifier) a submission of validated form data, whose incident date is a valid
  date, issues exactly one backend call: the procedure
  \<open>update_report_with_categories\<close> with the route identifier as report identifier,
  the report data and the full category list. The report data are the form's title,
  description, incident time, location and main category, the session's user
  identifier, and as incident date the date part of the ISO text of the form's date
  (the text before its \<open>T\<close>); the category list has one record per chosen
  category. No insert and no upload is issued, whatever the procedure answers.
\<close>

theorem update_issues_one_call:
  assumes "truthy ident" and "truthy (session_user_id session)"
    and "is_valid_Date (incident_date data)"
  shows "\<exists>date_text time_text s u resp.
           toISOString (incident_date data) = Inr (date_text @ ''T'' @ time_text)
         \<and> CHR ''T'' \<notin> set date_text
         \<and> session = Some s \<and> user s = Some u
         \<and> filter is_backend_call (submit_events be session ident data st) =
             [Rpc ''update_report_with_categories''
                [(''p_report_id'', JString (the ident)),
                 (''p_report_data'',
                  JObject
                    [(''title'', JString (title data)),
                     (''description'', JString (description data)),
                     (''incident_date'', JString date_text),
                     (''incident_time'', JString (incident_time data)),
                     (''location'', JString (location data)),
                     (''main_category_id'', JString (main_category_id data)),
                     (''user_id'', JString (user_id u))]),
                 (''p_categories'',
                  JArray (map (\<lambda>subcategoryId.
                                 JObject [(''subcategory_id'', JString subcategoryId),
                                          (''main_category_id'', JString (main_category_id data)),
                                          (''is_primary'', JBool False)])
                              (categories data)))]
                resp]
         \<and> filter is_upload (submit_events be session ident data st) = []
         \<and> filter (is_insert_into ''reports'') (submit_events be session ident data st) = []
         \<and> filter (is_insert_into ''report_category_assignments'')
              (submit_events be session ident data st) = []
         \<and> filter (is_insert_into ''evidence'') (submit_events be session ident data st) = []"
proof -
  from toISOString_valid [OF assms(3)] obtain iso_text where
    iso_text: "toISOString (incident_date data) = Inr iso_text"
    by blast
  from toISOString_date_part [OF iso_text] obtain date_text time_text where
    parts: "iso_text = date_text @ ''T'' @ time_text" "CHR ''T'' \<notin> set date_text"
      "split_T_0 iso_text = date_text"
    by blast
  from truthy_session [OF assms(2)] obtain s u where
    su: "session = Some s" "user s = Some u" "the (session_user_id session) = user_id u"
    by blast
  from submit_events_update [OF assms(2) iso_text assms(1), of be st] obtain resp where
    ev: "submit_events be session ident data st =
           Rpc ''update_report_with_categories''
             (rpc_args (the ident)
                (reportData data (split_T_0 iso_text) (the (session_user_id session))) data) resp #
           (if resp = None then [Toast updated_toast, Navigate ''/dashboard'']
            else [Toast generic_error_toast])"
    by blast
  have iso': "toISOString (incident_date data) = Inr (date_text @ ''T'' @ time_text)"
    using iso_text parts(1) by simp
  have call: "filter is_backend_call (submit_events be session ident data st) =
             [Rpc ''update_report_with_categories''
                [(''p_report_id'', JString (the ident)),
                 (''p_report_data'',
                  JObject
                    [(''title'', JString (title data)),
                     (''description'', JString (description data)),
                     (''incident_date'', JString date_text),
                     (''incident_time'', JString (incident_time data)),
                     (''location'', JString (location data)),
                     (''main_category_id'', JString (main_category_id data)),
                     (''user_id'', JString (user_id u))]),
                 (''p_categories'',
                  JArray (map (\<lambda>subcategoryId.
                                 JObject [(''subcategory_id'', JString subcategoryId),
                                          (''main_category_id'', JString (main_category_id data)),
                                          (''is_primary'', JBool False)])
                              (categories data)))]
                resp]"
    by (simp add: ev rpc_args_def p_categories_def reportData_def comp_def parts(3) su(3))
  have rest: "filter is_upload (submit_events be session ident data st) = []"
    "filter (is_insert_into ''reports'') (submit_events be session ident data st) = []"
    "filter (is_insert_into ''report_category_assignments'')
              (submit_events be session ident data st) = []"
    "filter (is_insert_into ''evidence'') (submit_events be session ident data st) = []"
    by (simp_all add: ev)
  show ?thesis
    using iso' parts(2) su(1,2) call rest by blast
qed

text \<open>
  Two updates, of different reports by different users at different dates.
\<close>

theorem update_issues_one_call_witness:
  "truthy (Some ''r7'') \<and> truthy (session_user_id ex_session)
   \<and> is_valid_Date (incident_date ex_form)
   \<and> filter is_backend_call (submit_events ex_backend ex_session (Some ''r7'') ex_form ex_state) =
       [Rpc ''update_report_with_categories''
          [(''p_report_id'', JString ''r7''),
           (''p_report_data'',
            JObject
              [(''title'', JString ''Theft''), (''description'', JString ''Bicycle taken''),
               (''incident_date'', JString ''2023-11-14''), (''incident_time'', JString ''10:00''),
               (''location'', JString ''Main street''), (''main_category_id'', JString ''m1''),
               (''user_id'', JString ''u1'')]),
           (''p_categories'',
            JArray
              [JObject [(''subcategory_id'', JString ''s1''), (''main_category_id'', JString ''m1''),
                        (''is_primary'', JBool False)],
               JObject [(''subcategory_id'', JString ''s2''), (''main_category_id'', JString ''m1''),
                        (''is_primary'', JBool False)]])]
          None]
   \<and> filter is_upload (submit_events ex_backend ex_session (Some ''r7'') ex_form ex_state) = []
   \<and> filter is_backend_call
        (submit_events ex_backend ex_other_session (Some ''r8'') ex_other_form ex_state) =
       [Rpc ''update_report_with_categories''
          [(''p_report_id'', JString ''r8''),
           (''p_report_data'',
            JObject
              [(''title'', JString ''Fire''), (''description'', JString ''Smoke in the hall''),
               (''incident_date'', JString ''1970-01-01''), (''incident_time'', JString ''23:30''),
               (''location'', JString ''Station road''), (''main_category_id'', JString ''m2''),
               (''user_id'', JString ''u2'')]),
           (''p_categories'', JArray [])]
          None]"
proof -
  have h1: "truthy (Some ''r7'')"
    by (simp add: truthy_def)
  show ?thesis
    using h1 ex_session_truthy ex_form_valid
      update_issues_one_call [OF h1 ex_session_truthy ex_form_valid, of ex_backend ex_state]
    by (simp add: ex_update_run ex_other_update_run)
qed

section \<open>The create path\<close>

lemma upload_events_no_rows:
  "concat (map (committed_rows t) (map (\<lambda>f. Upload b (p f) f None) fs)) = []"
  by (induction fs) auto

lemma upload_events_not_insert:
  "filter (is_insert_into t) (map (\<lambda>f. Upload b (p f) f None) fs) = []"
  by (induction fs) auto

lemma upload_events_is_upload:
  "filter is_upload (map (\<lambda>f. Upload b (p f) f None) fs) = map (\<lambda>f. Upload b (p f) f None) fs"
  by (induction fs) auto

lemma upload_events_no_rows_comp:
  "concat (map (committed_rows t \<circ> (\<lambda>f. Upload b (p f) f None)) fs) = []"
  by (induction fs) auto

lemma evidence_row_fun:
  "evidence_row be rid uid =
     (\<lambda>f. [(''report_id'', JString rid),
           (''file_url'', JString (getPublicUrl be ''evidence'' (rid @ ''/'' @ f_name f))),
           (''file_type'', JString (f_type f)),
           (''uploaded_by'', JString uid)])"
  by (rule ext) (simp add: evidence_row_def)

lemma create_success_events:
  assumes "\<not> truthy ident" and "truthy (session_user_id session)"
    and "is_valid_Date (incident_date data)"
    and "\<forall>e\<in>set (submit_events be session ident data st). \<not> failed e"
  shows "\<exists>rid iso_text.
           toISOString (incident_date data) = Inr iso_text
         \<and> submit_events be session ident data st =
             InsertSingle ''reports''
               (reportData data (split_T_0 iso_text) (the (session_user_id session))) (Inr rid) #
             (if categories data = [] then []
              else [Insert ''report_category_assignments'' (category_rows rid data) None]) @
             (case files data of
                None \<Rightarrow> []
              | Some fs \<Rightarrow>
                  if fs = [] then []
                  else map (\<lambda>f. Upload ''evidence'' (rid @ ''/'' @ f_name f) f None) fs @
                       [Insert ''evidence''
                          (map (evidence_row be rid (the (session_user_id session))) fs) None]) @
             [Toast created_toast, Navigate ''/dashboard'']"
proof -
  from toISOString_valid [OF assms(3)] obtain s where s: "toISOString (incident_date data) = Inr s"
    by blast
  from submit_events_create [OF assms(2) s assms(1), of be st] assms(4)
  have "\<exists>rid. submit_events be session ident data st =
             InsertSingle ''reports''
               (reportData data (split_T_0 s) (the (session_user_id session))) (Inr rid) #
             (if categories data = [] then []
              else [Insert ''report_category_assignments'' (category_rows rid data) None]) @
             (case files data of
                None \<Rightarrow> []
              | Some fs \<Rightarrow>
                  if fs = [] then []
                  else map (\<lambda>f. Upload ''evidence'' (rid @ ''/'' @ f_name f) f None) fs @
                       [Insert ''evidence''
                          (map (evidence_row be rid (the (session_user_id session))) fs) None]) @
             [Toast created_toast, Navigate ''/dashboard'']"
    by fastforce
  with s show ?thesis by blast
qed

lemma Promise_all_fulfilled: "Promise_all (map (\<lambda>f. Inr (g f)) fs) = Inr (map g fs)"
  by (induction fs) auto

lemma uploadPromises_accepting:
  assumes "\<forall>h b p f. upload_resp be h b p f = None"
  shows "uploadPromises be rid uid fs tr =
           (map (\<lambda>f. Inr (evidence_row be rid uid f)) fs,
            tr @ map (\<lambda>f. Upload ''evidence'' (rid @ ''/'' @ f_name f) f None) fs)"
  using assms by (induction fs arbitrary: tr) (simp_all add: Let_def)

text \<open>
  A backend that answers no call with an error: no event of a submission has failed,
  whatever the session, the route identifier and the form data.
\<close>

lemma accepting_backend_no_failure:
  assumes "\<forall>h t r. \<not> isl (insert_single_resp be h t r)"
    and "\<forall>h t rs. insert_resp be h t rs = None"
    and "\<forall>h n a. rpc_resp be h n a = None"
    and "\<forall>h b p f. upload_resp be h b p f = None"
  shows "\<forall>e\<in>set (submit_events be session ident data st). \<not> failed e"
proof (cases "truthy (session_user_id session)")
  case False
  from submit_events_unauthenticated [OF False] show ?thesis by simp
next
  case True
  show ?thesis
  proof (cases "is_valid_Date (incident_date data)")
    case False
    from submit_events_invalid_date [OF True False] show ?thesis by simp
  next
    case v: True
    from toISOString_valid [OF v] obtain s where s: "toISOString (incident_date data) = Inr s"
      by blast
    show ?thesis
    proof (cases "truthy ident")
      case t: True
      with True s assms(3) show ?thesis
        by (simp add: submit_events_def onSubmit_def onSubmit_try_def update_path_def Let_def)
    next
      case f: False
      let ?rd = "reportData data (split_T_0 s) (the (session_user_id session))"
      from assms(1) have "\<not> isl (insert_single_resp be (trace st) ''reports'' ?rd)"
        by blast
      then obtain rid where
        rid: "insert_single_resp be (trace st) ''reports'' ?rd = Inr rid"
        by (cases "insert_single_resp be (trace st) ''reports'' ?rd") auto
      from True s f rid assms(2) show ?thesis
        by (cases "files data")
           (simp_all add: submit_events_def onSubmit_def onSubmit_try_def create_path_def
              insert_categories_def upload_files_def Let_def
              uploadPromises_accepting [OF assms(4)] Promise_all_fulfilled)
    qed
  qed
qed

lemma ex_backend_accepting:
  "(\<forall>h t r. \<not> isl (insert_single_resp ex_backend h t r))
   \<and> (\<forall>h t rs. insert_resp ex_backend h t rs = None)
   \<and> (\<forall>h n a. rpc_resp ex_backend h n a = None)
   \<and> (\<forall>h b p f. upload_resp ex_backend h b p f = None)"
  by (simp add: ex_backend_def)

lemma ex_create_run_ok:
  "\<forall>e\<in>set (submit_events ex_backend ex_session None ex_form ex_state). \<not> failed e"
  using ex_backend_accepting by (intro accepting_backend_no_failure) simp_all

lemma ex_form_categories: "categories ex_form = [''s1'', ''s2'']"
  by (simp add: ex_form_def)

lemma not_truthy_None: "\<not> truthy None"
  by (simp add: truthy_def)

text \<open>
  C3: on the create path (no route identifier, a session with a user identifier,
  validated form data, every call answered without error) with N chosen categories,
  exactly one report insert is made and answered with the new report's identifier;
  the rows committed to \<open>report_category_assignments\<close> are exactly N, one per chosen
  category in order, each referring to that identifier; they come from one bulk
  insert, and when N = 0 no insert into that table is issued.
\<close>

theorem create_inserts_category_rows:
  assumes "\<not> truthy ident" and "truthy (session_user_id session)"
    and "is_valid_Date (incident_date data)"
    and "\<forall>e\<in>set (submit_events be session ident data st). \<not> failed e"
  shows "\<exists>rid report_row.
           filter (is_insert_into ''reports'') (submit_events be session ident data st) =
             [InsertSingle ''reports'' report_row (Inr rid)]
         \<and> rows_inserted ''report_category_assignments'' (submit_events be session ident data st) =
             map (\<lambda>subcategoryId.
                    [(''report_id'', JString rid),
                     (''subcategory_id'', JString subcategoryId),
                     (''main_category_id'', JString (main_category_id data)),
                     (''is_primary'', JBool False)])
                 (categories data)
         \<and> length (rows_inserted ''report_category_assignments''
                     (submit_events be session ident data st)) = length (categories data)
         \<and> (\<forall>r\<in>set (rows_inserted ''report_category_assignments''
                         (submit_events be session ident data st)).
               map_of r ''report_id'' = Some (JString rid))
         \<and> length (filter (is_insert_into ''report_category_assignments'')
                     (submit_events be session ident data st)) =
             (if categories data = [] then 0 else 1)"
proof -
  from create_success_events [OF assms] obtain rid iso_text where
    ev: "submit_events be session ident data st =
             InsertSingle ''reports''
               (reportData data (split_T_0 iso_text) (the (session_user_id session))) (Inr rid) #
             (if categories data = [] then []
              else [Insert ''report_category_assignments'' (category_rows rid data) None]) @
             (case files data of
                None \<Rightarrow> []
              | Some fs \<Rightarrow>
                  if fs = [] then []
                  else map (\<lambda>f. Upload ''evidence'' (rid @ ''/'' @ f_name f) f None) fs @
                       [Insert ''evidence''
                          (map (evidence_row be rid (the (session_user_id session))) fs) None]) @
             [Toast created_toast, Navigate ''/dashboard'']"
    by blast
  show ?thesis
    by (intro exI [of _ rid]
          exI [of _ "reportData data (split_T_0 iso_text) (the (session_user_id session))"])
       (auto simp: ev rows_inserted_def category_rows_def upload_events_no_rows
          upload_events_no_rows_comp upload_events_not_insert split: option.splits)
qed

theorem create_inserts_category_rows_witness:
  "\<not> truthy None \<and> truthy (session_user_id ex_session)
   \<and> is_valid_Date (incident_date ex_form)
   \<and> categories ex_form = [''s1'', ''s2'']
   \<and> rows_inserted ''report_category_assignments''
        (submit_events ex_backend ex_session None ex_form ex_state) =
       [[(''report_id'', JString ''rep-1''), (''subcategory_id'', JString ''s1''),
         (''main_category_id'', JString ''m1''), (''is_primary'', JBool False)],
        [(''report_id'', JString ''rep-1''), (''subcategory_id'', JString ''s2''),
         (''main_category_id'', JString ''m1''), (''is_primary'', JBool False)]]
   \<and> length (filter (is_insert_into ''report_category_assignments'')
               (submit_events ex_backend ex_session None ex_form ex_state)) = 1"
  using not_truthy_None ex_session_truthy ex_form_valid
    create_inserts_category_rows [OF not_truthy_None ex_session_truthy ex_form_valid
      ex_create_run_ok]
  by (simp add: ex_create_run rows_inserted_def ex_form_categories)

text \<open>
  C4: on the create path (no route identifier, a session with a user identifier,
  validated form data, every call answered without error) with K attached files,
  K uploads are issued to the bucket \<open>evidence\<close>, the file named \<open>n\<close> under
  the path \<open><reportId>/n\<close>, and exactly K rows are committed to \<open>evidence\<close>, one
  per file in order; each row refers to the new report, carries the public address of
  that path, the file's MIME type and the submitting user's identifier. With no file
  attached there is no upload and no insert into \<open>evidence\<close>.
\<close>

theorem create_inserts_evidence_rows:
  assumes "\<not> truthy ident" and "truthy (session_user_id session)"
    and "is_valid_Date (incident_date data)"
    and "\<forall>e\<in>set (submit_events be session ident data st). \<not> failed e"
  shows "\<exists>rid report_row.
           filter (is_insert_into ''reports'') (submit_events be session ident data st) =
             [InsertSingle ''reports'' report_row (Inr rid)]
         \<and> filter is_upload (submit_events be session ident data st) =
             map (\<lambda>f. Upload ''evidence'' (rid @ ''/'' @ f_name f) f None) (attached_files data)
         \<and> rows_inserted ''evidence'' (submit_events be session ident data st) =
             map (\<lambda>f. [(''report_id'', JString rid),
                        (''file_url'',
                         JString (getPublicUrl be ''evidence'' (rid @ ''/'' @ f_name f))),
                        (''file_type'', JString (f_type f)),
                        (''uploaded_by'', JString (the (session_user_id session)))])
                 (attached_files data)
         \<and> length (rows_inserted ''evidence'' (submit_events be session ident data st)) =
             length (attached_files data)
         \<and> length (filter (is_insert_into ''evidence'') (submit_events be session ident data st)) =
             (if attached_files data = [] then 0 else 1)"
proof -
  from create_success_events [OF assms] obtain rid iso_text where
    ev: "submit_events be session ident data st =
             InsertSingle ''reports''
               (reportData data (split_T_0 iso_text) (the (session_user_id session))) (Inr rid) #
             (if categories data = [] then []
              else [Insert ''report_category_assignments'' (category_rows rid data) None]) @
             (case files data of
                None \<Rightarrow> []
              | Some fs \<Rightarrow>
                  if fs = [] then []
                  else map (\<lambda>f. Upload ''evidence'' (rid @ ''/'' @ f_name f) f None) fs @
                       [Insert ''evidence''
                          (map (evidence_row be rid (the (session_user_id session))) fs) None]) @
             [Toast created_toast, Navigate ''/dashboard'']"
    by blast
  show ?thesis
    by (intro exI [of _ rid]
          exI [of _ "reportData data (split_T_0 iso_text) (the (session_user_id session))"])
       (auto simp: ev rows_inserted_def attached_files_def evidence_row_fun
          upload_events_no_rows upload_events_no_rows_comp upload_events_not_insert
          upload_events_is_upload split: option.splits)
qed

theorem create_inserts_evidence_rows_witness:
  "\<not> truthy None \<and> truthy (session_user_id ex_session)
   \<and> is_valid_Date (incident_date ex_form)
   \<and> filter is_upload (submit_events ex_backend ex_session None ex_form ex_state) =
       [Upload ''evidence'' ''rep-1/a.png''
          \<lparr> f_name = ''a.png'', f_type = ''image/png'', f_content = ''x'' \<rparr> None]
   \<and> rows_inserted ''evidence'' (submit_events ex_backend ex_session None ex_form ex_state) =
       [[(''report_id'', JString ''rep-1''),
         (''file_url'', JString ''https://store.example/evidence/rep-1/a.png''),
         (''file_type'', JString ''image/png''), (''uploaded_by'', JString ''u1'')]]"
  using not_truthy_None ex_session_truthy ex_form_valid
    create_inserts_evidence_rows [OF not_truthy_None ex_session_truthy ex_form_valid
      ex_create_run_ok]
  by (simp add: ex_create_run rows_inserted_def)

text \<open>
  C7: a successful submission on the create path (no route identifier, a session with
  a user identifier, validated form data, every call answered without error) consists
  of these events in this order: the report insert, answered with the new report's
  identifier; the bulk insert of the category assignments, when categories were
  chosen; the K uploads, each under the new report's identifier (they are issued
  together and awaited together; the trace lists them in the order of the file list);
  the single evidence insert, when K > 0, with the rows of all K uploads; the success
  toast; the navigation to the dashboard.
\<close>

theorem create_steps_in_order:
  assumes "\<not> truthy ident" and "truthy (session_user_id session)"
    and "is_valid_Date (incident_date data)"
    and "\<forall>e\<in>set (submit_events be session ident data st). \<not> failed e"
  shows "\<exists>rid iso_text.
           toISOString (incident_date data) = Inr iso_text
         \<and> submit_events be session ident data st =
             [InsertSingle ''reports''
                (reportData data (split_T_0 iso_text) (the (session_user_id session))) (Inr rid)] @
             (if categories data = [] then []
              else [Insert ''report_category_assignments'' (category_rows rid data) None]) @
             map (\<lambda>f. Upload ''evidence'' (rid @ ''/'' @ f_name f) f None) (attached_files data) @
             (if attached_files data = [] then []
              else [Insert ''evidence''
                      (map (evidence_row be rid (the (session_user_id session)))
                         (attached_files data)) None]) @
             [Toast created_toast, Navigate ''/dashboard'']"
proof -
  from create_success_events [OF assms] obtain rid iso_text where
    s: "toISOString (incident_date data) = Inr iso_text" and
    ev: "submit_events be session ident data st =
             InsertSingle ''reports''
               (reportData data (split_T_0 iso_text) (the (session_user_id session))) (Inr rid) #
             (if categories data = [] then []
              else [Insert ''report_category_assignments'' (category_rows rid data) None]) @
             (case files data of
                None \<Rightarrow> []
              | Some fs \<Rightarrow>
                  if fs = [] then []
                  else map (\<lambda>f. Upload ''evidence'' (rid @ ''/'' @ f_name f) f None) fs @
                       [Insert ''evidence''
                          (map (evidence_row be rid (the (session_user_id session))) fs) None]) @
             [Toast created_toast, Navigate ''/dashboard'']"
    by blast
  show ?thesis
    by (intro exI [of _ rid] exI [of _ iso_text])
       (simp add: s ev attached_files_def split: option.splits)
qed

theorem create_steps_in_order_witness:
  "\<not> truthy None \<and> truthy (session_user_id ex_session)
   \<and> is_valid_Date (incident_date ex_form)
   \<and> map is_write (submit_events ex_backend ex_session None ex_form ex_state) =
       [True, True, True, True, False, False]
   \<and> map is_upload (submit_events ex_backend ex_session None ex_form ex_state) =
       [False, False, True, False, False, False]
   \<and> map (is_insert_into ''evidence'') (submit_events ex_backend ex_session None ex_form ex_state) =
       [False, False, False, True, False, False]
   \<and> last (submit_events ex_backend ex_session None ex_form ex_state) = Navigate ''/dashboard''"
  using not_truthy_None ex_session_truthy ex_form_valid
    create_steps_in_order [OF not_truthy_None ex_session_truthy ex_form_valid ex_create_run_ok]
  by (simp add: ex_create_run)

section \<open>Failures, and the assignment records\<close>

lemma is_write_no_toast: "\<forall>e\<in>set ws. is_write e \<Longrightarrow> toasts ws = []"
proof (induction ws)
  case Nil
  then show ?case by (simp add: toasts_def)
next
  case (Cons e ws)
  then show ?case by (cases e) (auto simp: toasts_def)
qed

lemma is_write_no_navigate: "\<forall>e\<in>set ws. is_write e \<Longrightarrow> filter is_navigate ws = []"
proof (induction ws)
  case Nil
  then show ?case by simp
next
  case (Cons e ws)
  then show ?case by (cases e) auto
qed

lemma is_write_not_undoes: "is_write e \<Longrightarrow> \<not> undoes e"
  by (cases e) auto

lemma toasts_append: "toasts (xs @ ys) = toasts xs @ toasts ys"
  by (simp add: toasts_def)

lemma uploads_records:
  "e \<in> set (map (\<lambda>f. Upload b (p f) f None) fs) \<Longrightarrow> records_non_primary m e"
  by (auto simp: records_non_primary_def)

lemma rpc_records:
  "records_non_primary (main_category_id data)
     (Rpc ''update_report_with_categories'' (rpc_args i rd data) resp)"
  by (simp add: records_non_primary_def rpc_args_def p_categories_def list_all_iff)

text \<open>The events of a submission in each of its five cases.\<close>

lemma submit_events_cases:
  "submit_events be session ident data st = [Toast auth_error_toast]
   \<or> submit_events be session ident data st = [Toast generic_error_toast]
   \<or> (\<exists>i rd resp. submit_events be session ident data st =
         Rpc ''update_report_with_categories'' (rpc_args i rd data) resp #
         (if resp = None then [Toast updated_toast, Navigate ''/dashboard'']
          else [Toast generic_error_toast]))
   \<or> (\<exists>ws. submit_events be session ident data st = ws @ [Toast generic_error_toast]
            \<and> (\<forall>e\<in>set ws. is_write e \<and> records_non_primary (main_category_id data) e)
            \<and> (\<exists>e\<in>set ws. failed e))
   \<or> (\<exists>rid rd uid. submit_events be session ident data st =
             InsertSingle ''reports'' rd (Inr rid) #
             (if categories data = [] then []
              else [Insert ''report_category_assignments'' (category_rows rid data) None]) @
             (case files data of
                None \<Rightarrow> []
              | Some fs \<Rightarrow>
                  if fs = [] then []
                  else map (\<lambda>f. Upload ''evidence'' (rid @ ''/'' @ f_name f) f None) fs @
                       [Insert ''evidence'' (map (evidence_row be rid uid) fs) None]) @
             [Toast created_toast, Navigate ''/dashboard''])"
proof (cases "truthy (session_user_id session)")
  case False
  from submit_events_unauthenticated [OF False] show ?thesis by blast
next
  case True
  show ?thesis
  proof (cases "is_valid_Date (incident_date data)")
    case False
    from submit_events_invalid_date [OF True False] show ?thesis by blast
  next
    case v: True
    from toISOString_valid [OF v] obtain s where s: "toISOString (incident_date data) = Inr s"
      by blast
    show ?thesis
    proof (cases "truthy ident")
      case t: True
      from submit_events_update [OF True s t, of be st] show ?thesis by blast
    next
      case f: False
      from submit_events_create [OF True s f, of be st] show ?thesis by blast
    qed
  qed
qed

lemma submit_events_failed:
  assumes "\<exists>e\<in>set (submit_events be session ident data st). failed e"
  shows "\<exists>ws. submit_events be session ident data st = ws @ [Toast generic_error_toast]
            \<and> (\<forall>e\<in>set ws. is_write e)"
proof -
  consider
    (unauth) "submit_events be session ident data st = [Toast auth_error_toast]"
  | (date) "submit_events be session ident data st = [Toast generic_error_toast]"
  | (update) i rd resp where "submit_events be session ident data st =
         Rpc ''update_report_with_categories'' (rpc_args i rd data) resp #
         (if resp = None then [Toast updated_toast, Navigate ''/dashboard'']
          else [Toast generic_error_toast])"
  | (create_failed) ws where "submit_events be session ident data st = ws @ [Toast generic_error_toast]"
      "\<forall>e\<in>set ws. is_write e \<and> records_non_primary (main_category_id data) e"
  | (create_ok) rid rd uid where "submit_events be session ident data st =
             InsertSingle ''reports'' rd (Inr rid) #
             (if categories data = [] then []
              else [Insert ''report_category_assignments'' (category_rows rid data) None]) @
             (case files data of
                None \<Rightarrow> []
              | Some fs \<Rightarrow>
                  if fs = [] then []
                  else map (\<lambda>f. Upload ''evidence'' (rid @ ''/'' @ f_name f) f None) fs @
                       [Insert ''evidence'' (map (evidence_row be rid uid) fs) None]) @
             [Toast created_toast, Navigate ''/dashboard'']"
    using submit_events_cases [of be session ident data st] by blast
  then show ?thesis
  proof cases
    case unauth
    with assms show ?thesis by simp
  next
    case date
    with assms show ?thesis by simp
  next
    case update
    show ?thesis
    proof (cases "resp = None")
      case True
      with update assms show ?thesis by simp
    next
      case False
      with update have "submit_events be session ident data st =
          [Rpc ''update_report_with_categories'' (rpc_args i rd data) resp] @
          [Toast generic_error_toast]" by simp
      then show ?thesis by (intro exI [of _ "[Rpc ''update_report_with_categories'' (rpc_args i rd data) resp]"]) simp
    qed
  next
    case create_failed
    then show ?thesis by blast
  next
    case create_ok
    have "\<forall>e\<in>set (submit_events be session ident data st). \<not> failed e"
      unfolding create_ok by (auto split: option.splits if_splits)
    with assms show ?thesis by blast
  qed
qed

lemma submit_events_records:
  "\<forall>e\<in>set (submit_events be session ident data st).
     records_non_primary (main_category_id data) e"
proof -
  consider
    (unauth) "submit_events be session ident data st = [Toast auth_error_toast]"
  | (date) "submit_events be session ident data st = [Toast generic_error_toast]"
  | (update) i rd resp where "submit_events be session ident data st =
         Rpc ''update_report_with_categories'' (rpc_args i rd data) resp #
         (if resp = None then [Toast updated_toast, Navigate ''/dashboard'']
          else [Toast generic_error_toast])"
  | (create_failed) ws where "submit_events be session ident data st = ws @ [Toast generic_error_toast]"
      "\<forall>e\<in>set ws. is_write e \<and> records_non_primary (main_category_id data) e"
  | (create_ok) rid rd uid where "submit_events be session ident data st =
             InsertSingle ''reports'' rd (Inr rid) #
             (if categories data = [] then []
              else [Insert ''report_category_assignments'' (category_rows rid data) None]) @
             (case files data of
                None \<Rightarrow> []
              | Some fs \<Rightarrow>
                  if fs = [] then []
                  else map (\<lambda>f. Upload ''evidence'' (rid @ ''/'' @ f_name f) f None) fs @
                       [Insert ''evidence'' (map (evidence_row be rid uid) fs) None]) @
             [Toast created_toast, Navigate ''/dashboard'']"
    using submit_events_cases [of be session ident data st] by blast
  then show ?thesis
  proof cases
    case unauth
    then show ?thesis by (simp add: records_non_primary_def)
  next
    case date
    then show ?thesis by (simp add: records_non_primary_def)
  next
    case update
    have t: "\<And>x. records_non_primary (main_category_id data) (Toast x)"
      "\<And>x. records_non_primary (main_category_id data) (Navigate x)"
      by (simp_all add: records_non_primary_def)
    show ?thesis
      unfolding update using rpc_records [of data i rd resp] t by simp
  next
    case create_failed
    then show ?thesis by (auto simp: records_non_primary_def)
  next
    case create_ok
    have t: "\<And>x. records_non_primary (main_category_id data) (Toast x)"
      "\<And>x. records_non_primary (main_category_id data) (Navigate x)"
      "\<And>x y. records_non_primary (main_category_id data) (InsertSingle ''reports'' x y)"
      "\<And>x y. records_non_primary (main_category_id data) (Insert ''evidence'' x y)"
      "\<And>b p f r. records_non_primary (main_category_id data) (Upload b p f r)"
      by (simp_all add: records_non_primary_def)
    show ?thesis
      unfolding create_ok
      using t category_rows_records [of data rid None]
      by (auto split: option.splits if_splits simp: uploads_records)
  qed
qed

text \<open>
  On the create path a submission navigates to the dashboard exactly when the
  session has a user identifier, the incident date is valid and no call failed.
\<close>

lemma create_navigates_iff:
  assumes "\<not> truthy ident"
  shows "Navigate ''/dashboard'' \<in> set (submit_events be session ident data st) \<longleftrightarrow>
           truthy (session_user_id session) \<and> is_valid_Date (incident_date data)
           \<and> (\<forall>e\<in>set (submit_events be session ident data st). \<not> failed e)"
proof
  assume nav: "Navigate ''/dashboard'' \<in> set (submit_events be session ident data st)"
  have u: "truthy (session_user_id session)"
  proof (rule ccontr)
    assume "\<not> truthy (session_user_id session)"
    from submit_events_unauthenticated [OF this, of be ident data st] nav show False
      by simp
  qed
  have v: "is_valid_Date (incident_date data)"
  proof (rule ccontr)
    assume "\<not> is_valid_Date (incident_date data)"
    from submit_events_invalid_date [OF u this, of be ident st] nav show False
      by simp
  qed
  from toISOString_valid [OF v] obtain s where s: "toISOString (incident_date data) = Inr s"
    by blast
  have "\<forall>e\<in>set (submit_events be session ident data st). \<not> failed e"
  proof (rule ccontr)
    assume "\<not> (\<forall>e\<in>set (submit_events be session ident data st). \<not> failed e)"
    then have "\<exists>e\<in>set (submit_events be session ident data st). failed e"
      by blast
    from submit_events_failed [OF this] obtain ws where
      ws: "submit_events be session ident data st = ws @ [Toast generic_error_toast]"
        "\<forall>e\<in>set ws. is_write e"
      by blast
    from nav ws(1) have "Navigate ''/dashboard'' \<in> set ws"
      by simp
    with ws(2) show False by auto
  qed
  with u v show "truthy (session_user_id session) \<and> is_valid_Date (incident_date data)
           \<and> (\<forall>e\<in>set (submit_events be session ident data st). \<not> failed e)"
    by blast
next
  assume h: "truthy (session_user_id session) \<and> is_valid_Date (incident_date data)
           \<and> (\<forall>e\<in>set (submit_events be session ident data st). \<not> failed e)"
  then have h1: "truthy (session_user_id session)" and h2: "is_valid_Date (incident_date data)"
    and h3: "\<forall>e\<in>set (submit_events be session ident data st). \<not> failed e"
    by blast+
  from create_success_events [OF assms h1 h2 h3] obtain rid iso_text where
    ev: "submit_events be session ident data st =
             InsertSingle ''reports''
               (reportData data (split_T_0 iso_text) (the (session_user_id session))) (Inr rid) #
             (if categories data = [] then []
              else [Insert ''report_category_assignments'' (category_rows rid data) None]) @
             (case files data of
                None \<Rightarrow> []
              | Some fs \<Rightarrow>
                  if fs = [] then []
                  else map (\<lambda>f. Upload ''evidence'' (rid @ ''/'' @ f_name f) f None) fs @
                       [Insert ''evidence''
                          (map (evidence_row be rid (the (session_user_id session))) fs) None]) @
             [Toast created_toast, Navigate ''/dashboard'']"
    by blast
  show "Navigate ''/dashboard'' \<in> set (submit_events be session ident data st)"
    unfolding ev by simp
qed

text \<open>
  C6: when a write step of a submission fails (the report insert, the assignment
  insert, an upload, the evidence insert or the update procedure is answered with an
  error), the form values stay as they are; exactly one toast is shown, the generic
  error with the text \<open>Something went wrong. Please try again.\<close>; nothing is
  navigated to; the events of the submission are write steps followed by that toast,
  so the writes committed before the failure stay committed and no call takes one
  back.
\<close>

theorem write_failure_shows_generic_error:
  assumes "\<exists>e\<in>set (submit_events be session ident data st). failed e"
  shows "form_values (onSubmit be session ident data st) = form_values st
       \<and> toasts (submit_events be session ident data st) = [generic_error_toast]
       \<and> t_description generic_error_toast = ''Something went wrong. Please try again.''
       \<and> filter is_navigate (submit_events be session ident data st) = []
       \<and> (\<exists>ws. submit_events be session ident data st = ws @ [Toast generic_error_toast]
              \<and> (\<forall>e\<in>set ws. is_write e))
       \<and> (\<forall>e\<in>set (submit_events be session ident data st). \<not> undoes e)
       \<and> trace (onSubmit be session ident data st) =
           trace st @ submit_events be session ident data st"
proof -
  from submit_events_failed [OF assms] obtain ws where
    ev: "submit_events be session ident data st = ws @ [Toast generic_error_toast]"
    and w: "\<forall>e\<in>set ws. is_write e"
    by blast
  have 1: "toasts (submit_events be session ident data st) = [generic_error_toast]"
    using is_write_no_toast [OF w] by (simp add: ev toasts_append) (simp add: toasts_def)
  have 2: "filter is_navigate (submit_events be session ident data st) = []"
    using is_write_no_navigate [OF w] by (simp add: ev)
  have 3: "\<forall>e\<in>set (submit_events be session ident data st). \<not> undoes e"
    using w is_write_not_undoes by (auto simp: ev)
  have 4: "\<exists>ws. submit_events be session ident data st = ws @ [Toast generic_error_toast]
              \<and> (\<forall>e\<in>set ws. is_write e)"
    using ev w by blast
  show ?thesis
    using 1 2 3 4 form_values_onSubmit [of be session ident data st]
      trace_onSubmit [of be session ident data st]
    by (simp add: generic_error_toast_def)
qed

lemma ex_failing_run_failed:
  "\<exists>e\<in>set (submit_events ex_failing_backend ex_session None ex_form ex_state). failed e"
  by (simp add: ex_failing_run)

text \<open>
  A run in which the upload is refused: the report row and the two assignment rows,
  written before the failure, stay committed.
\<close>

theorem write_failure_shows_generic_error_witness:
  "(\<exists>e\<in>set (submit_events ex_failing_backend ex_session None ex_form ex_state). failed e)
   \<and> form_values (onSubmit ex_failing_backend ex_session None ex_form ex_state) =
       form_values ex_state
   \<and> toasts (submit_events ex_failing_backend ex_session None ex_form ex_state) =
       [generic_error_toast]
   \<and> filter is_navigate (submit_events ex_failing_backend ex_session None ex_form ex_state) = []
   \<and> length (rows_inserted ''reports''
       (submit_events ex_failing_backend ex_session None ex_form ex_state)) = 1
   \<and> length (rows_inserted ''report_category_assignments''
       (submit_events ex_failing_backend ex_session None ex_form ex_state)) = 2
   \<and> rows_inserted ''evidence''
       (submit_events ex_failing_backend ex_session None ex_form ex_state) = []"
  using ex_failing_run_failed write_failure_shows_generic_error [OF ex_failing_run_failed]
  by (simp add: ex_failing_run rows_inserted_def)

text \<open>
  C10: every category-assignment record that a submission hands to the backend, as a
  row of the bulk insert on the create path or as a member of \<open>p_categories\<close> on
  the update path, has \<open>is_primary\<close> false and the form's \<open>main_category_id\<close> as
  its main category; this holds for every session, route identifier, form data and
  backend. The service's \<open>createReport\<close> carries no assignment record.
\<close>

theorem assignments_never_primary:
  "(\<forall>e\<in>set (submit_events be session ident data st).
      \<forall>r\<in>set (assignment_records e).
        field ''is_primary'' r = Some (JBool False)
        \<and> field ''main_category_id'' r = Some (JString (main_category_id data)))
   \<and> (\<forall>e\<in>set (drop (length tr) (snd (createReport be rd tr))). assignment_records e = [])"
proof -
  have "\<forall>e\<in>set (drop (length tr) (snd (createReport be rd tr))). assignment_records e = []"
    by (simp add: createReport_def Let_def)
  then show ?thesis
    using submit_events_records [of be session ident data st]
    by (simp add: records_non_primary_def list_all_iff)
qed

theorem assignments_never_primary_witness:
  "concat (map assignment_records (submit_events ex_backend ex_session None ex_form ex_state)) =
     [JObject [(''report_id'', JString ''rep-1''), (''subcategory_id'', JString ''s1''),
               (''main_category_id'', JString ''m1''), (''is_primary'', JBool False)],
      JObject [(''report_id'', JString ''rep-1''), (''subcategory_id'', JString ''s2''),
               (''main_category_id'', JString ''m1''), (''is_primary'', JBool False)]]
   \<and> concat (map assignment_records
        (submit_events ex_backend ex_session (Some ''r7'') ex_form ex_state)) =
     [JObject [(''subcategory_id'', JString ''s1''), (''main_category_id'', JString ''m1''),
               (''is_primary'', JBool False)],
      JObject [(''subcategory_id'', JString ''s2''), (''main_category_id'', JString ''m1''),
               (''is_primary'', JBool False)]]
   \<and> field ''is_primary''
        (JObject [(''report_id'', JString ''rep-1''), (''subcategory_id'', JString ''s1''),
                  (''main_category_id'', JString ''m1''), (''is_primary'', JBool False)]) =
       Some (JBool False)
   \<and> field ''main_category_id''
        (JObject [(''subcategory_id'', JString ''s2''), (''main_category_id'', JString ''m1''),
                  (''is_primary'', JBool False)]) =
       Some (JString (main_category_id ex_form))"
  using assignments_never_primary [of ex_backend ex_session None ex_form ex_state]
    assignments_never_primary [of ex_backend ex_session "Some ''r7''" ex_form ex_state]
  by (simp add: ex_create_run ex_update_run)

section \<open>The service wrapper and the list view\<close>

lemma ex_corresponding_row:
  "ReportData_row (corresponding_ReportData ex_form ''2023-11-14'' ''u1'') =
     [(''title'', JString ''Theft''), (''description'', JString ''Bicycle taken''),
      (''category_id'', JString ''m1''), (''incident_date'', JString ''2023-11-14''),
      (''incident_time'', JString ''10:00''), (''location'', JString ''Main street''),
      (''user_id'', JString ''u1'')]"
  by code_simp

lemma ex_reportData:
  "reportData ex_form ''2023-11-14'' ''u1'' =
     [(''title'', JString ''Theft''), (''description'', JString ''Bicycle taken''),
      (''incident_date'', JString ''2023-11-14''), (''incident_time'', JString ''10:00''),
      (''location'', JString ''Main street''), (''main_category_id'', JString ''m1''),
      (''user_id'', JString ''u1'')]"
  by code_simp

lemma ReportData_row_category_id:
  "map_of (ReportData_row rd) ''category_id'' = Some (JString (rd_category_id rd))"
  by (simp add: ReportData_row_def)

text \<open>
  C8 (as amended): on the create path the controller's first call is, like
  \<open>createReport\<close>, one single-row insert into \<open>reports\<close> that returns the created
  row, answered by the backend and thrown on error. For the \<open>ReportData\<close> that carries
  the values of the submitted form, the two rows agree on \<open>title\<close>, \<open>description\<close>,
  \<open>incident_date\<close>, \<open>incident_time\<close>, \<open>location\<close> and \<open>user_id\<close>. They are not the
  same row: the controller writes the category under the column \<open>main_category_id\<close>
  and has no \<open>category_id\<close>, \<open>createReport\<close> writes it under \<open>category_id\<close> and has
  no \<open>main_category_id\<close>.
\<close>

theorem create_write_agrees_on_shared_columns:
  assumes "\<not> truthy ident" and "truthy (session_user_id session)"
    and "is_valid_Date (incident_date data)"
  shows "\<exists>iso_text resp rest.
           toISOString (incident_date data) = Inr iso_text
         \<and> submit_events be session ident data st =
             InsertSingle ''reports''
               (reportData data (split_T_0 iso_text) (the (session_user_id session))) resp # rest
         \<and> createReport be
              (corresponding_ReportData data (split_T_0 iso_text) (the (session_user_id session))) tr =
             (insert_single_resp be tr ''reports''
                (ReportData_row (corresponding_ReportData data (split_T_0 iso_text)
                   (the (session_user_id session)))),
              tr @ [InsertSingle ''reports''
                (ReportData_row (corresponding_ReportData data (split_T_0 iso_text)
                   (the (session_user_id session))))
                (insert_single_resp be tr ''reports''
                   (ReportData_row (corresponding_ReportData data (split_T_0 iso_text)
                      (the (session_user_id session)))))])
         \<and> (\<forall>k\<in>{''title'', ''description'', ''incident_date'', ''incident_time'', ''location'',
                  ''user_id''}.
               map_of (reportData data (split_T_0 iso_text) (the (session_user_id session))) k =
               map_of (ReportData_row (corresponding_ReportData data (split_T_0 iso_text)
                         (the (session_user_id session)))) k)
         \<and> map_of (reportData data (split_T_0 iso_text) (the (session_user_id session)))
              ''main_category_id'' = Some (JString (main_category_id data))
         \<and> map_of (reportData data (split_T_0 iso_text) (the (session_user_id session)))
              ''category_id'' = None
         \<and> map_of (ReportData_row (corresponding_ReportData data (split_T_0 iso_text)
                      (the (session_user_id session)))) ''category_id'' =
             Some (JString (main_category_id data))
         \<and> map_of (ReportData_row (corresponding_ReportData data (split_T_0 iso_text)
                      (the (session_user_id session)))) ''main_category_id'' = None"
proof -
  from toISOString_valid [OF assms(3)] obtain s where s: "toISOString (incident_date data) = Inr s"
    by blast
  from submit_events_create_first [OF assms(2) s assms(1), of be st] obtain resp rest where
    ev: "submit_events be session ident data st =
      InsertSingle ''reports''
        (reportData data (split_T_0 s) (the (session_user_id session))) resp # rest"
    by blast
  show ?thesis
    by (intro exI [of _ s] exI [of _ resp] exI [of _ rest])
       (simp add: s ev createReport_def Let_def reportData_def ReportData_row_def
          corresponding_ReportData_def nullable_def)
qed

theorem create_write_agrees_on_shared_columns_witness:
  "\<not> truthy None \<and> truthy (session_user_id ex_session)
   \<and> is_valid_Date (incident_date ex_form)
   \<and> hd (submit_events ex_backend ex_session None ex_form ex_state) =
       InsertSingle ''reports'' (reportData ex_form ''2023-11-14'' ''u1'') (Inr ''rep-1'')
   \<and> map_of (reportData ex_form ''2023-11-14'' ''u1'') ''title'' =
       map_of (ReportData_row (corresponding_ReportData ex_form ''2023-11-14'' ''u1'')) ''title''
   \<and> map_of (reportData ex_form ''2023-11-14'' ''u1'') ''main_category_id'' =
       map_of (ReportData_row (corresponding_ReportData ex_form ''2023-11-14'' ''u1''))
         ''category_id''"
  using not_truthy_None ex_session_truthy ex_form_valid
    create_write_agrees_on_shared_columns [OF not_truthy_None ex_session_truthy ex_form_valid,
      of ex_backend ex_state "[]"]
  by (simp add: ex_create_run ex_reportData ex_corresponding_row)

text \<open>
  The rows of one submission: the row the controller inserts has no \<open>category_id\<close>,
  which every row of \<open>createReport\<close> has.
\<close>

theorem create_write_row_counterexample:
  "hd (submit_events ex_backend ex_session None ex_form ex_state) =
     InsertSingle ''reports'' (reportData ex_form ''2023-11-14'' ''u1'') (Inr ''rep-1'')
   \<and> snd (createReport ex_backend (corresponding_ReportData ex_form ''2023-11-14'' ''u1'') []) =
       [InsertSingle ''reports''
          (ReportData_row (corresponding_ReportData ex_form ''2023-11-14'' ''u1'')) (Inr ''rep-1'')]
   \<and> map_of (reportData ex_form ''2023-11-14'' ''u1'') ''category_id'' = None
   \<and> map_of (ReportData_row (corresponding_ReportData ex_form ''2023-11-14'' ''u1''))
        ''category_id'' = Some (JString ''m1'')
   \<and> map_of (reportData ex_form ''2023-11-14'' ''u1'') \<noteq>
       map_of (ReportData_row (corresponding_ReportData ex_form ''2023-11-14'' ''u1''))
   \<and> \<not> (\<exists>rd. map_of (ReportData_row rd) = map_of (reportData ex_form ''2023-11-14'' ''u1''))"
proof -
  have c: "map_of (reportData ex_form ''2023-11-14'' ''u1'') ''category_id'' = None"
    by (simp add: ex_reportData)
  have s: "map_of (ReportData_row (corresponding_ReportData ex_form ''2023-11-14'' ''u1''))
        ''category_id'' = Some (JString ''m1'')"
    by (simp add: ex_corresponding_row)
  have n: "\<not> (\<exists>rd. map_of (ReportData_row rd) = map_of (reportData ex_form ''2023-11-14'' ''u1''))"
  proof
    assume "\<exists>rd. map_of (ReportData_row rd) = map_of (reportData ex_form ''2023-11-14'' ''u1'')"
    then obtain rd where
      "map_of (ReportData_row rd) = map_of (reportData ex_form ''2023-11-14'' ''u1'')"
      by blast
    then have "map_of (ReportData_row rd) ''category_id'' =
               map_of (reportData ex_form ''2023-11-14'' ''u1'') ''category_id''"
      by simp
    with c ReportData_row_category_id [of rd] show False by simp
  qed
  have d: "map_of (reportData ex_form ''2023-11-14'' ''u1'') \<noteq>
       map_of (ReportData_row (corresponding_ReportData ex_form ''2023-11-14'' ''u1''))"
    using n by metis
  have e: "snd (createReport ex_backend (corresponding_ReportData ex_form ''2023-11-14'' ''u1'') []) =
       [InsertSingle ''reports''
          (ReportData_row (corresponding_ReportData ex_form ''2023-11-14'' ''u1'')) (Inr ''rep-1'')]"
    by (simp add: createReport_def ex_backend_def Let_def)
  have h: "hd (submit_events ex_backend ex_session None ex_form ex_state) =
     InsertSingle ''reports'' (reportData ex_form ''2023-11-14'' ''u1'') (Inr ''rep-1'')"
    by (simp add: ex_create_run ex_reportData)
  from h e c s d n show ?thesis by blast
qed

lemma render_item_badge:
  assumes "render_item format_PPP report = Inr v"
  shows "badge_text (status_badge v) = rep_status report
       \<and> variant (status_badge v) =
           (if rep_status report = ''resolved'' then ''success''
            else if rep_status report = ''in_progress'' then ''warning''
            else ''default'')"
  using assms by (auto simp: render_item_def split: sum.splits if_splits)

lemma render_items_nth:
  "render_items format_PPP reports = Inr vs \<Longrightarrow>
     length vs = length reports
     \<and> (\<forall>i<length reports. render_item format_PPP (reports ! i) = Inr (vs ! i))"
proof (induction reports arbitrary: vs)
  case Nil
  then show ?case by simp
next
  case (Cons r rs)
  from Cons.prems obtain v vs' where
    v: "render_item format_PPP r = Inr v" and
    vs': "render_items format_PPP rs = Inr vs'" and
    eq: "vs = v # vs'"
    by (auto split: sum.splits)
  from Cons.IH [OF vs'] have ih: "length vs' = length rs"
    "\<forall>i<length rs. render_item format_PPP (rs ! i) = Inr (vs' ! i)"
    by simp_all
  show ?case
    using v eq ih by (auto simp: nth_Cons split: nat.splits)
qed

lemma render_items_total:
  "\<forall>r\<in>set reports. truthy (rep_incident_date r) \<longrightarrow> \<not> isl (format_PPP (the (rep_incident_date r)))
   \<Longrightarrow> \<exists>vs. render_items format_PPP reports = Inr vs"
proof (induction reports)
  case Nil
  then show ?case by simp
next
  case (Cons r rs)
  then obtain vs where vs: "render_items format_PPP rs = Inr vs"
    by auto
  from Cons.prems have "\<exists>v. render_item format_PPP r = Inr v"
    by (cases "format_PPP (the (rep_incident_date r))") (auto simp: render_item_def)
  with vs show ?case by auto
qed

text \<open>
  C9: the list view renders an empty sequence as the single placeholder
  \<open>No reports found\<close>. A rendered non-empty sequence has one item per report, in
  order, whose badge shows the status text with the variant \<open>success\<close> for the
  status \<open>resolved\<close>, \<open>warning\<close> for \<open>in_progress\<close> and \<open>default\<close> for every other
  status. The list is rendered whenever the date library formats every incident date
  that is present.
\<close>

theorem ReportsList_badge_variants:
  "ReportsList format_PPP [] = Inr (Placeholder ''No reports found'')
   \<and> (reports \<noteq> [] \<and> ReportsList format_PPP reports = Inr v \<longrightarrow>
        (\<exists>items. v = Items items
           \<and> length items = length reports
           \<and> (\<forall>i<length reports.
                 badge_text (status_badge (items ! i)) = rep_status (reports ! i)
               \<and> (rep_status (reports ! i) = ''resolved'' \<longrightarrow>
                    variant (status_badge (items ! i)) = ''success'')
               \<and> (rep_status (reports ! i) = ''in_progress'' \<longrightarrow>
                    variant (status_badge (items ! i)) = ''warning'')
               \<and> (rep_status (reports ! i) \<noteq> ''resolved''
                    \<and> rep_status (reports ! i) \<noteq> ''in_progress'' \<longrightarrow>
                    variant (status_badge (items ! i)) = ''default''))))
   \<and> ((\<forall>r\<in>set reports.
          truthy (rep_incident_date r) \<longrightarrow> \<not> isl (format_PPP (the (rep_incident_date r)))) \<longrightarrow>
        (\<exists>w. ReportsList format_PPP reports = Inr w))"
proof (intro conjI impI)
  show "ReportsList format_PPP [] = Inr (Placeholder ''No reports found'')"
    by (simp add: ReportsList_def)
next
  assume a: "reports \<noteq> [] \<and> ReportsList format_PPP reports = Inr v"
  then obtain items where
    items: "render_items format_PPP reports = Inr items" and v: "v = Items items"
    by (auto simp: ReportsList_def split: sum.splits)
  from render_items_nth [OF items] have
    len: "length items = length reports" and
    nth: "\<forall>i<length reports. render_item format_PPP (reports ! i) = Inr (items ! i)"
    by simp_all
  have "\<forall>i<length reports.
          badge_text (status_badge (items ! i)) = rep_status (reports ! i)
        \<and> (rep_status (reports ! i) = ''resolved'' \<longrightarrow>
             variant (status_badge (items ! i)) = ''success'')
        \<and> (rep_status (reports ! i) = ''in_progress'' \<longrightarrow>
             variant (status_badge (items ! i)) = ''warning'')
        \<and> (rep_status (reports ! i) \<noteq> ''resolved''
             \<and> rep_status (reports ! i) \<noteq> ''in_progress'' \<longrightarrow>
             variant (status_badge (items ! i)) = ''default'')"
  proof (intro allI impI)
    fix i
    assume "i < length reports"
    with nth have "render_item format_PPP (reports ! i) = Inr (items ! i)"
      by simp
    from render_item_badge [OF this] show
      "badge_text (status_badge (items ! i)) = rep_status (reports ! i)
        \<and> (rep_status (reports ! i) = ''resolved'' \<longrightarrow>
             variant (status_badge (items ! i)) = ''success'')
        \<and> (rep_status (reports ! i) = ''in_progress'' \<longrightarrow>
             variant (status_badge (items ! i)) = ''warning'')
        \<and> (rep_status (reports ! i) \<noteq> ''resolved''
             \<and> rep_status (reports ! i) \<noteq> ''in_progress'' \<longrightarrow>
             variant (status_badge (items ! i)) = ''default'')"
      by simp
  qed
  with v len show "\<exists>items. v = Items items
           \<and> length items = length reports
           \<and> (\<forall>i<length reports.
                 badge_text (status_badge (items ! i)) = rep_status (reports ! i)
               \<and> (rep_status (reports ! i) = ''resolved'' \<longrightarrow>
                    variant (status_badge (items ! i)) = ''success'')
               \<and> (rep_status (reports ! i) = ''in_progress'' \<longrightarrow>
                    variant (status_badge (items ! i)) = ''warning'')
               \<and> (rep_status (reports ! i) \<noteq> ''resolved''
                    \<and> rep_status (reports ! i) \<noteq> ''in_progress'' \<longrightarrow>
                    variant (status_badge (items ! i)) = ''default''))"
    by blast
next
  assume "\<forall>r\<in>set reports.
          truthy (rep_incident_date r) \<longrightarrow> \<not> isl (format_PPP (the (rep_incident_date r)))"
  from render_items_total [OF this] show "\<exists>w. ReportsList format_PPP reports = Inr w"
    by (auto simp: ReportsList_def)
qed

lemma ex_reports_rendered:
  "ReportsList (\<lambda>s. Inr s) ex_reports =
     Inr (Items
       [\<lparr> item_key = ''r1'', onClick = ''/reports/r1'', heading = ''A'',
          category_line = ''Category: Theft'', date_line = ''2023-11-14'',
          status_badge = \<lparr> variant = ''success'', badge_text = ''resolved'' \<rparr> \<rparr>,
        \<lparr> item_key = ''r2'', onClick = ''/reports/r2'', heading = ''B'',
          category_line = ''Category: '', date_line = ''No date specified'',
          status_badge = \<lparr> variant = ''warning'', badge_text = ''in_progress'' \<rparr> \<rparr>,
        \<lparr> item_key = ''r3'', onClick = ''/reports/r3'', heading = ''C'',
          category_line = ''Category: '', date_line = ''No date specified'',
          status_badge = \<lparr> variant = ''default'', badge_text = ''pending'' \<rparr> \<rparr>])"
  by code_simp

theorem ReportsList_badge_variants_witness:
  "ex_reports \<noteq> []
   \<and> ReportsList (\<lambda>s. Inr s) [] = Inr (Placeholder ''No reports found'')
   \<and> (\<exists>items. ReportsList (\<lambda>s. Inr s) ex_reports = Inr (Items items)
        \<and> map rep_status ex_reports = [''resolved'', ''in_progress'', ''pending'']
        \<and> map (\<lambda>v. variant (status_badge v)) items = [''success'', ''warning'', ''default''])"
proof -
  have ne: "ex_reports \<noteq> []"
    by (simp add: ex_reports_def)
  have st: "map rep_status ex_reports = [''resolved'', ''in_progress'', ''pending'']"
    by (simp add: ex_reports_def)
  show ?thesis
    using ne st ex_reports_rendered
      ReportsList_badge_variants [of "\<lambda>s. Inr s" ex_reports
        "Items
       [\<lparr> item_key = ''r1'', onClick = ''/reports/r1'', heading = ''A'',
          category_line = ''Category: Theft'', date_line = ''2023-11-14'',
          status_badge = \<lparr> variant = ''success'', badge_text = ''resolved'' \<rparr> \<rparr>,
        \<lparr> item_key = ''r2'', onClick = ''/reports/r2'', heading = ''B'',
          category_line = ''Category: '', date_line = ''No date specified'',
          status_badge = \<lparr> variant = ''warning'', badge_text = ''in_progress'' \<rparr> \<rparr>,
        \<lparr> item_key = ''r3'', onClick = ''/reports/r3'', heading = ''C'',
          category_line = ''Category: '', date_line = ''No date specified'',
          status_badge = \<lparr> variant = ''default'', badge_text = ''pending'' \<rparr> \<rparr>]"]
    by simp
qed

end
